(* ===== verification/Prelude.thy ===== *)
theory Prelude
  imports Complex_Main "HOL-Library.Sublist" "HOL-Library.Multiset"
begin

text \<open>
  Shared vocabulary of the development: the Python exceptions the dashboard's code can
  raise, the result type \<open>'a result\<close> of a computation that may raise, the sequencing
  \<open>rbind\<close> of two Python statements of which the first may raise, Python's \<open>int()\<close> on
  the numbers a Shiny numeric input delivers, and generic lemmas on lists shared by the
  component theories.
\<close>

named_theorems result_simps "evaluation rules of computations that may raise"

section \<open>Python exceptions and results\<close>

text \<open>
  The exceptions are those the paths of \<^verbatim>\<open>src/app.py\<close> reach: \<open>TypeError\<close> for
  \<^verbatim>\<open>int(None)\<close>, \<open>KeyError\<close> for an unknown column name, \<open>NameError\<close> for an
  unbound global, \<open>IndexingError\<close> for a boolean mask that lacks the label of a row of
  the frame (pandas' \<^verbatim>\<open>IndexingError\<close>), \<open>IndexError\<close> for a positional take past
  the end of a frame.
\<close>

datatype py_error = TypeError | KeyError | NameError | IndexingError | IndexError

type_synonym 'a result = "py_error + 'a"

definition rbind :: "'a result \<Rightarrow> ('a \<Rightarrow> 'b result) \<Rightarrow> 'b result" where
  "rbind r f = (case r of Inl e \<Rightarrow> Inl e | Inr a \<Rightarrow> f a)"

section \<open>Python's int() on a number of a numeric input\<close>

text \<open>
  A Shiny \<^verbatim>\<open>input_numeric\<close> delivers a Python number, or \<^verbatim>\<open>None\<close> when the
  field is empty. \<^verbatim>\<open>int(x)\<close> truncates a float towards zero and raises
  \<open>TypeError\<close> on \<^verbatim>\<open>None\<close>. The browser never sends NaN or an infinity (JSON has
  neither), so those branches of \<^verbatim>\<open>int()\<close> are not reachable.
\<close>

definition py_trunc :: "real \<Rightarrow> int" where
  "py_trunc x = (if 0 \<le> x then \<lfloor>x\<rfloor> else \<lceil>x\<rceil>)"

definition py_int :: "real option \<Rightarrow> int result" where
  "py_int v = (case v of None \<Rightarrow> Inl TypeError | Some x \<Rightarrow> Inr (py_trunc x))"

section \<open>Lemmas\<close>

lemma rbind_Inl [simp, result_simps]: "rbind (Inl e) f = Inl e"
  by (simp add: rbind_def)

lemma rbind_Inr [simp, result_simps]: "rbind (Inr a) f = f a"
  by (simp add: rbind_def)

lemma py_int_None [simp, result_simps]: "py_int None = Inl TypeError"
  by (simp add: py_int_def)

lemma py_int_Some [simp, result_simps]: "py_int (Some x) = Inr (py_trunc x)"
  by (simp add: py_int_def)

lemma py_trunc_of_int [simp]: "py_trunc (of_int n) = n"
  by (simp add: py_trunc_def)

section \<open>Lists\<close>

text \<open>Taking the rows at the positions where a predicate holds is filtering by it.\<close>

lemma map_nth_filter_positions:
  "map (nth xs) (filter (\<lambda>p. Q (xs ! p)) [0..<length xs]) = filter Q xs"
proof (induction xs rule: rev_induct)
  case Nil
  then show ?case by simp
next
  case (snoc x xs)
  have "filter (\<lambda>p. Q ((xs @ [x]) ! p)) [0..<length xs] = filter (\<lambda>p. Q (xs ! p)) [0..<length xs]"
    by (rule filter_cong) (auto simp: nth_append)
  moreover have "map (nth (xs @ [x])) (filter (\<lambda>p. Q (xs ! p)) [0..<length xs])
      = map (nth xs) (filter (\<lambda>p. Q (xs ! p)) [0..<length xs])"
    by (rule map_cong) (auto simp: nth_append)
  ultimately show ?case using snoc.IH by simp
qed

lemma count_list_replicate [simp]: "count_list (replicate n x) y = (if x = y then n else 0)"
  by (induction n) auto

lemma length_filter_mem_count:
  "length (filter (\<lambda>x. f x \<in> set ks) xs) = sum_list (map (count_list (map f xs)) (remdups ks))"
proof (induction xs)
  case Nil
  then show ?case by (simp add: sum_list_eq_0_iff)
next
  case (Cons x xs)
  have "count_list (map f (x # xs)) = (\<lambda>k. count_list (map f xs) k + (if f x = k then 1 else 0))"
    by auto
  then have "sum_list (map (count_list (map f (x # xs))) (remdups ks))
      = sum_list (map (count_list (map f xs)) (remdups ks))
        + sum_list (map (\<lambda>k. if f x = k then 1 else 0) (remdups ks))"
    by (simp add: sum_list_addf)
  also have "sum_list (map (\<lambda>k. if f x = k then 1 else (0::nat)) (remdups ks))
      = (if f x \<in> set ks then 1 else 0)"
    by (simp add: sum_list_distinct_conv_sum_set sum.If_cases)
  finally show ?case using Cons.IH by simp
qed

end
