(* ===== verification/Penguins.thy ===== *)
theory Penguins
  imports Prelude
begin

text \<open>
  The Dataset Provider: the table \<^verbatim>\<open>penguins_df = load_penguins()\<close> that
  \<^verbatim>\<open>src/app.py\<close> loads once at import time (line 9). The loader belongs to the
  \<^verbatim>\<open>palmerpenguins\<close> package, not to this repository; it is modelled from the
  specification (section 6) and from the package's documented columns: one record per row,
  measurements that may be missing (\<^verbatim>\<open>NaN\<close>, here \<open>None\<close>), and a pandas
  \<^verbatim>\<open>RangeIndex\<close> \<open>0, 1, \<dots>\<close> as row labels. A frame is a list of (label, row)
  pairs, so that boolean indexing, which keeps the labels of the rows it keeps, is modelled
  as it behaves.
\<close>

record penguin =
  species :: string
  island :: string
  bill_length_mm :: "real option"
  bill_depth_mm :: "real option"
  flipper_length_mm :: "real option"
  body_mass_g :: "real option"
  sex :: "string option"
  year :: int

type_synonym frame = "(nat \<times> penguin) list"

definition load_penguins :: "penguin list \<Rightarrow> frame" where
  "load_penguins rows = enumerate 0 rows"

definition penguin_species :: "string list" where
  "penguin_species = [''Adelie'', ''Gentoo'', ''Chinstrap'']"

text \<open>
  The cells of a row, by column name, in the order of the frame's columns. A column is
  read by name (\<^verbatim>\<open>df[col]\<close>), and a name that is not a column raises
  \<open>KeyError\<close>, whether the frame has rows or not.
\<close>

datatype cell = CStr string | CNum "real option" | COptStr "string option" | CInt int

definition row_cells :: "penguin \<Rightarrow> (string \<times> cell) list" where
  "row_cells r =
     [(''species'', CStr (species r)),
      (''island'', CStr (island r)),
      (''bill_length_mm'', CNum (bill_length_mm r)),
      (''bill_depth_mm'', CNum (bill_depth_mm r)),
      (''flipper_length_mm'', CNum (flipper_length_mm r)),
      (''body_mass_g'', CNum (body_mass_g r)),
      (''sex'', COptStr (sex r)),
      (''year'', CInt (year r))]"

definition frame_columns :: "string list" where
  "frame_columns = [''species'', ''island'', ''bill_length_mm'', ''bill_depth_mm'',
                    ''flipper_length_mm'', ''body_mass_g'', ''sex'', ''year'']"

definition frame_column :: "string \<Rightarrow> frame \<Rightarrow> (nat \<times> cell) list result" where
  "frame_column c df =
     (if c \<in> set frame_columns
      then Inr (map (\<lambda>(i, r). (i, the (map_of (row_cells r) c))) df)
      else Inl KeyError)"

text \<open>A numeric column: every row holds a (possibly missing) number there.\<close>

definition numeric_column :: "string \<Rightarrow> bool" where
  "numeric_column c \<longleftrightarrow> c \<in> set frame_columns \<and>
     (\<forall>r. \<exists>v. map_of (row_cells r) c = Some (CNum v))"

text \<open>
  What the loader promises: unique, increasing row labels, and species labels drawn from
  the three species of the dataset.
\<close>

definition frame_ok :: "frame \<Rightarrow> bool" where
  "frame_ok df \<longleftrightarrow> sorted_wrt (<) (map fst df) \<and> set (map (species \<circ> snd) df) \<subseteq> set penguin_species"

section \<open>Lemmas\<close>

lemma numeric_column_iff:
  "numeric_column c \<longleftrightarrow> c \<in> {''bill_length_mm'', ''bill_depth_mm'', ''flipper_length_mm'', ''body_mass_g''}"
  by (auto simp: numeric_column_def row_cells_def frame_columns_def)

lemma load_penguins_rows: "map snd (load_penguins rows) = rows"
  by (simp add: load_penguins_def)

lemma map_load_penguins_column: "map (f \<circ> snd) (load_penguins rows) = map f rows"
  by (simp flip: map_map add: load_penguins_rows)

end
