(* ===== verification/Species_Filter.thy ===== *)
theory Species_Filter
  imports Penguins
begin

text \<open>
  The Filter Stage: the reactive calculation \<^verbatim>\<open>filtered_data\<close> of
  \<^verbatim>\<open>src/app.py\<close> (lines 45--47),
  \<^verbatim>\<open>penguins_df[penguins_df["species"].isin(input.selected_species_list())]\<close>.
  It is two pandas operations: \<open>isin\<close> builds a boolean Series indexed like the frame,
  and boolean indexing keeps the rows whose mask entry is true, with their labels. The
  model keeps both steps, and the indexing step's error paths (a mask that cannot be
  aligned to the frame raises \<^verbatim>\<open>IndexingError\<close>); the lemmas show that no error path
  is taken and that the result is the order-preserving subsequence of the rows of the
  selected species.
\<close>

type_synonym mask = "(nat \<times> bool) list"

definition isin :: "string list \<Rightarrow> frame \<Rightarrow> mask" where
  "isin vals df = map (\<lambda>(i, r). (i, species r \<in> set vals)) df"

text \<open>
  Boolean indexing \<^verbatim>\<open>df[mask]\<close>, as pandas' \<^verbatim>\<open>DataFrame._getitem_bool_array\<close>
  and \<^verbatim>\<open>check_bool_indexer\<close> do it. When the mask's index equals the frame's, the mask
  is the key as it is. Otherwise the mask is aligned to the frame's labels (with a warning,
  not modelled): for each row label, the mask entries with that label, all of them if the
  label repeats (\<^verbatim>\<open>Index.get_indexer_for\<close>); a row label with no entry raises
  \<^verbatim>\<open>IndexingError\<close> ("Unalignable boolean Series"). If every entry of the key is true,
  the whole frame is returned; otherwise the rows at the positions of the true entries are
  taken, and a position past the end of the frame raises \<^verbatim>\<open>IndexError\<close>. Line 47
  builds the mask from the frame itself, so only the first case arises there.
\<close>

definition mask_select :: "mask \<Rightarrow> frame \<Rightarrow> frame result" where
  "mask_select m df =
     (let key = (if map fst m = map fst df then Some (map snd m)
                 else if list_all (\<lambda>(i, r). i \<in> set (map fst m)) df
                 then Some (concat (map (\<lambda>(i, r). map snd (filter (\<lambda>(j, b). j = i) m)) df))
                 else None)
      in case key of
           None \<Rightarrow> Inl IndexingError
         | Some k \<Rightarrow>
             if list_all id k then Inr df
             else (let ps = filter (\<lambda>p. k ! p) [0..<length k]
                   in if list_all (\<lambda>p. p < length df) ps then Inr (map (nth df) ps) else Inl IndexError))"

definition filtered_data :: "frame \<Rightarrow> string list \<Rightarrow> frame result" where
  "filtered_data df sel = mask_select (isin sel df) df"

text \<open>The reference: the rows whose species is selected, in their original order.\<close>

definition species_view :: "string list \<Rightarrow> frame \<Rightarrow> frame" where
  "species_view sel df = filter (\<lambda>(i, r). species r \<in> set sel) df"

text \<open>A row of the given species with its measurements, for the concrete instances below.\<close>

definition sample_penguin :: "string \<Rightarrow> penguin" where
  "sample_penguin s =
     \<lparr>species = s, island = ''Biscoe'', bill_length_mm = Some 39.1, bill_depth_mm = Some 18.7,
      flipper_length_mm = Some 181, body_mass_g = Some 3750, sex = Some ''male'', year = 2007\<rparr>"

definition sample_dataset :: "penguin list" where
  "sample_dataset = replicate 152 (sample_penguin ''Adelie'') @ replicate 124 (sample_penguin ''Gentoo'')
     @ replicate 68 (sample_penguin ''Chinstrap'')"

section \<open>Lemmas\<close>

lemma map_fst_isin [simp]: "map fst (isin vals df) = map fst df"
  by (induction df) (auto simp: isin_def)

lemma map_snd_isin: "map snd (isin vals df) = map (\<lambda>(i, r). species r \<in> set vals) df"
  by (induction df) (auto simp: isin_def)

lemma filtered_data_eq_view: "filtered_data df sel = Inr (species_view sel df)"
proof -
  let ?P = "\<lambda>(i, r). species r \<in> set sel"
  have k: "map snd (isin sel df) = map ?P df" by (rule map_snd_isin)
  have "filter (\<lambda>p. map ?P df ! p) [0..<length df] = filter (\<lambda>p. ?P (df ! p)) [0..<length df]"
    by (rule filter_cong) simp_all
  then have take: "map (nth df) (filter (\<lambda>p. map ?P df ! p) [0..<length (map ?P df)]) = filter ?P df"
    by (simp add: map_nth_filter_positions)
  have all: "list_all id (map ?P df) \<Longrightarrow> df = filter ?P df"
    by (simp add: list_all_iff filter_id_conv)
  have bound: "list_all (\<lambda>p. p < length df) (filter Q [0..<length df])" for Q
    by (simp add: list_all_iff)
  show ?thesis
    using take all bound by (simp add: filtered_data_def mask_select_def k species_view_def Let_def)
qed

lemma species_view_cong: "set sel = set sel' \<Longrightarrow> species_view sel df = species_view sel' df"
  by (simp add: species_view_def)

lemma species_view_length:
  "length (species_view sel df) = sum_list (map (count_list (map (species \<circ> snd) df)) (remdups sel))"
proof -
  have eq: "(\<lambda>(i, r). species r \<in> set sel) = (\<lambda>x. (species \<circ> snd) x \<in> set sel)"
    by auto
  show ?thesis
    unfolding species_view_def eq by (rule length_filter_mem_count)
qed

lemma species_view_all:
  "set (map (species \<circ> snd) df) \<subseteq> set sel \<Longrightarrow> species_view sel df = df"
  by (auto simp: species_view_def filter_id_conv)

lemma frame_ok_filter: "frame_ok df \<Longrightarrow> frame_ok (filter P df)"
  unfolding frame_ok_def by (auto simp: sorted_wrt_map sorted_wrt_filter)

section \<open>Properties of the filter stage\<close>

text \<open>
  C2. \<^verbatim>\<open>filtered_data\<close> never raises, and returns exactly the rows whose species is
  in the selection, in their original order and with their original row labels, and no
  others.
\<close>

theorem filtered_data_exact:
  "filtered_data df sel = Inr (filter (\<lambda>(i, r). species r \<in> set sel) df)"
  using filtered_data_eq_view by (simp add: species_view_def)

text \<open>C18. The empty selection yields the empty view, not an error and not every row.\<close>

theorem filtered_data_empty_selection: "filtered_data df [] = Inr []"
  by (simp add: filtered_data_eq_view species_view_def)

text \<open>
  C19. When every species of the dataset is selected (the default of the checkbox group),
  the view is the whole dataset: same rows, same count.
\<close>

theorem filtered_data_full_selection:
  assumes "frame_ok df" and "set penguin_species \<subseteq> set sel"
  shows "filtered_data df sel = Inr df"
proof -
  from assms have "set (map (species \<circ> snd) df) \<subseteq> set sel"
    by (auto simp: frame_ok_def)
  then show ?thesis by (simp add: filtered_data_eq_view species_view_all)
qed

theorem filtered_data_full_selection_witness:
  "frame_ok (load_penguins [sample_penguin ''Gentoo'', sample_penguin ''Adelie''])
   \<and> set penguin_species \<subseteq> set [''Adelie'', ''Gentoo'', ''Chinstrap'']
   \<and> filtered_data (load_penguins [sample_penguin ''Gentoo'', sample_penguin ''Adelie''])
       [''Adelie'', ''Gentoo'', ''Chinstrap''] =
     Inr (load_penguins [sample_penguin ''Gentoo'', sample_penguin ''Adelie''])"
proof -
  have ok: "frame_ok (load_penguins [sample_penguin ''Gentoo'', sample_penguin ''Adelie''])"
    by (simp add: frame_ok_def load_penguins_def sample_penguin_def penguin_species_def)
  have sub: "set penguin_species \<subseteq> set [''Adelie'', ''Gentoo'', ''Chinstrap'']"
    by (simp add: penguin_species_def)
  show ?thesis using filtered_data_full_selection [OF ok sub] ok sub by simp
qed

text \<open>
  C20. The view depends on the selection only as a set: the order in which the boxes were
  ticked and repeated entries do not change it (the cache key of the calculation).
\<close>

theorem filtered_data_selection_as_set:
  assumes "set sel = set sel'"
  shows "filtered_data df sel = filtered_data df sel'"
  using species_view_cong [OF assms] by (simp add: filtered_data_eq_view)

theorem filtered_data_selection_as_set_witness:
  "set [''Gentoo'', ''Adelie''] = set [''Adelie'', ''Gentoo'', ''Adelie'']
   \<and> filtered_data (load_penguins [sample_penguin ''Chinstrap'']) [''Gentoo'', ''Adelie'']
     = filtered_data (load_penguins [sample_penguin ''Chinstrap'']) [''Adelie'', ''Gentoo'', ''Adelie'']"
proof -
  have h: "set [''Gentoo'', ''Adelie''] = set [''Adelie'', ''Gentoo'', ''Adelie'']" by auto
  show ?thesis using h filtered_data_selection_as_set [OF h] by simp
qed

text \<open>
  C21. The row count of the view is the sum, over the distinct selected species, of the
  number of rows of that species.
\<close>

theorem filtered_data_row_count:
  "\<exists>v. filtered_data df sel = Inr v \<and>
      length v = sum_list (map (count_list (map (species \<circ> snd) df)) (remdups sel))"
proof (intro exI conjI)
  show "filtered_data df sel = Inr (species_view sel df)" by (rule filtered_data_eq_view)
  show "length (species_view sel df) = sum_list (map (count_list (map (species \<circ> snd) df)) (remdups sel))"
    by (rule species_view_length)
qed

text \<open>
  C22. The scenario of the specification: in a dataset with 124 Gentoo rows, selecting only
  Gentoo yields exactly 124 rows, all of species Gentoo.
\<close>

theorem filtered_data_gentoo_scenario:
  assumes "count_list (map (species \<circ> snd) df) ''Gentoo'' = 124"
  shows "\<exists>v. filtered_data df [''Gentoo''] = Inr v \<and> length v = 124
            \<and> (\<forall>(i, r) \<in> set v. species r = ''Gentoo'')"
  using assms by (auto simp: filtered_data_eq_view species_view_length) (auto simp: species_view_def)

theorem filtered_data_gentoo_scenario_witness:
  "length sample_dataset = 344
   \<and> (\<exists>v. filtered_data (load_penguins sample_dataset) [''Gentoo''] = Inr v \<and> length v = 124
            \<and> (\<forall>(i, r) \<in> set v. species r = ''Gentoo''))"
proof -
  have c: "count_list (map (species \<circ> snd) (load_penguins sample_dataset)) ''Gentoo'' = 124"
    by (simp only: map_load_penguins_column) (simp add: sample_dataset_def sample_penguin_def)
  have l: "length sample_dataset = 344" by (simp add: sample_dataset_def)
  show ?thesis using filtered_data_gentoo_scenario [OF c] l by blast
qed

text \<open>
  C23. The view of a well-formed frame is a well-formed frame and a subsequence of it: the
  row labels stay unique and increasing, and every row comes from the dataset.
\<close>

theorem filtered_data_well_formed:
  assumes "frame_ok df" and "filtered_data df sel = Inr v"
  shows "frame_ok v \<and> subseq v df"
  using assms by (auto simp: filtered_data_eq_view species_view_def frame_ok_filter)

theorem filtered_data_well_formed_witness:
  "frame_ok (load_penguins [sample_penguin ''Gentoo'', sample_penguin ''Adelie''])
   \<and> frame_ok [(1, sample_penguin ''Adelie'')]
   \<and> subseq [(1, sample_penguin ''Adelie'')] (load_penguins [sample_penguin ''Gentoo'', sample_penguin ''Adelie''])"
proof -
  have ok: "frame_ok (load_penguins [sample_penguin ''Gentoo'', sample_penguin ''Adelie''])"
    by (simp add: frame_ok_def load_penguins_def sample_penguin_def penguin_species_def)
  have v: "filtered_data (load_penguins [sample_penguin ''Gentoo'', sample_penguin ''Adelie'']) [''Adelie'']
     = Inr [(1, sample_penguin ''Adelie'')]"
    by (simp add: filtered_data_eq_view species_view_def load_penguins_def sample_penguin_def)
  show ?thesis using ok filtered_data_well_formed [OF ok v] by simp
qed

section \<open>Boolean indexing by label\<close>

end
