(* ===== verification/App_Ui.thy ===== *)
theory App_Ui
  imports Penguins
begin

text \<open>
  The UI Shell: the declaration \<^verbatim>\<open>app_ui\<close> of \<^verbatim>\<open>src/app.py\<close> (lines 12--39) as a
  tree of tags, the ids of its inputs and output placeholders, the value each input starts
  with and the values each widget can deliver, and the session's input state
  (\<^verbatim>\<open>input.selected_attribute()\<close> and its three siblings) with the events that write
  it. What a widget can deliver is the contract of Shiny's widgets: a selectize without
  \<^verbatim>\<open>multiple\<close> starts at its first choice and delivers one of its choices; a numeric
  input delivers any number, or \<^verbatim>\<open>None\<close> when the field is cleared; a slider delivers an
  integer between its bounds; a checkbox group delivers its ticked choices in the order of
  the choices.
\<close>

datatype input_value = VStr string | VNum "real option" | VInt int | VStrs "string list"

datatype tag =
    PageFluid "tag list"
  | LayoutSidebar "tag list"
  | Sidebar "tag list"
  | LayoutColumns "tag list"
  | H2 string
  | Hr
  | Anchor string string string
  | InputSelectize string string "string list"
  | InputNumeric string string real
  | InputSlider string string int int int
  | InputCheckboxGroup string string "string list" "string list" bool
  | OutputTable string
  | OutputWidget string
  | OutputPlot string
  | Card bool "tag list"
  | OutputDataFrame string

definition app_ui :: tag where
  "app_ui =
     PageFluid [
       LayoutSidebar [
         Sidebar [
           H2 ''Penguin Sidebar'',
           InputSelectize ''selected_attribute'' ''Select attribute''
             [''bill_length_mm'', ''bill_depth_mm'', ''body_mass_g''],
           InputNumeric ''plotly_bin_count'' ''Plotly Histogram Bins'' 50,
           InputSlider ''seaborn_bin_count'' ''Seaborn Histogram Bins'' 0 100 50,
           InputCheckboxGroup ''selected_species_list'' ''Filter Species''
             [''Adelie'', ''Gentoo'', ''Chinstrap''] [''Adelie'', ''Gentoo'', ''Chinstrap''] True],
         LayoutColumns [OutputTable ''data_table'', OutputTable ''data_grid''],
         OutputWidget ''plotly_histogram'',
         OutputPlot ''seaborn_histogram'',
         OutputWidget ''plotly_scatterplot'',
         Hr,
         Anchor ''GitHub'' ''https://github.com/amrutu75/cintel-02-pages'' ''_blank'']]"

text \<open>
  The layout the module declares after \<^verbatim>\<open>server()\<close> (lines 105--117): columns of two
  full-screen cards, each with a heading and the placeholder of a data-frame renderer. It is
  built by \<^verbatim>\<open>with\<close> statements at module level, not passed to \<^verbatim>\<open>app_ui\<close>, the
  page the application serves.
\<close>

definition module_layout :: tag where
  "module_layout =
     LayoutColumns [
       Card True [H2 ''Penguin Data Table'', OutputDataFrame ''penguins_datatable''],
       Card True [H2 ''Penguin Data Grid'', OutputDataFrame ''penguins_datagrid'']]"

fun input_defaults :: "tag \<Rightarrow> (string \<times> input_value) list" where
  "input_defaults (InputSelectize i l cs) = [(i, VStr (case cs of [] \<Rightarrow> [] | c # _ \<Rightarrow> c))]"
| "input_defaults (InputNumeric i l v) = [(i, VNum (Some v))]"
| "input_defaults (InputSlider i l lo hi v) = [(i, VInt v)]"
| "input_defaults (InputCheckboxGroup i l cs sel inl) = [(i, VStrs sel)]"
| "input_defaults (PageFluid cs) = concat (map input_defaults cs)"
| "input_defaults (LayoutSidebar cs) = concat (map input_defaults cs)"
| "input_defaults (Sidebar cs) = concat (map input_defaults cs)"
| "input_defaults (LayoutColumns cs) = concat (map input_defaults cs)"
| "input_defaults (Card fs cs) = concat (map input_defaults cs)"
| "input_defaults _ = []"

definition input_ids :: "tag \<Rightarrow> string list" where
  "input_ids t = map fst (input_defaults t)"

fun output_ids :: "tag \<Rightarrow> string list" where
  "output_ids (OutputTable i) = [i]"
| "output_ids (OutputWidget i) = [i]"
| "output_ids (OutputPlot i) = [i]"
| "output_ids (OutputDataFrame i) = [i]"
| "output_ids (PageFluid cs) = concat (map output_ids cs)"
| "output_ids (LayoutSidebar cs) = concat (map output_ids cs)"
| "output_ids (Sidebar cs) = concat (map output_ids cs)"
| "output_ids (LayoutColumns cs) = concat (map output_ids cs)"
| "output_ids (Card fs cs) = concat (map output_ids cs)"
| "output_ids _ = []"

text \<open>The values the widget with id \<open>i\<close> of a tree can deliver.\<close>

fun widget_accepts :: "tag \<Rightarrow> string \<Rightarrow> input_value \<Rightarrow> bool" where
  "widget_accepts (InputSelectize j l cs) i v = (i = j \<and> (\<exists>c \<in> set cs. v = VStr c))"
| "widget_accepts (InputNumeric j l d) i v = (i = j \<and> (\<exists>x. v = VNum x))"
| "widget_accepts (InputSlider j l lo hi d) i v = (i = j \<and> (\<exists>n. v = VInt n \<and> lo \<le> n \<and> n \<le> hi))"
| "widget_accepts (InputCheckboxGroup j l cs sel inl) i v =
     (i = j \<and> (\<exists>s. v = VStrs s \<and> subseq s cs))"
| "widget_accepts (PageFluid cs) i v = (\<exists>c \<in> set cs. widget_accepts c i v)"
| "widget_accepts (LayoutSidebar cs) i v = (\<exists>c \<in> set cs. widget_accepts c i v)"
| "widget_accepts (Sidebar cs) i v = (\<exists>c \<in> set cs. widget_accepts c i v)"
| "widget_accepts (LayoutColumns cs) i v = (\<exists>c \<in> set cs. widget_accepts c i v)"
| "widget_accepts (Card fs cs) i v = (\<exists>c \<in> set cs. widget_accepts c i v)"
| "widget_accepts _ i v = False"

section \<open>The session's inputs\<close>

datatype input_id = SelectedAttribute | PlotlyBinCount | SeabornBinCount | SelectedSpeciesList

record inputs =
  selected_attribute :: string
  plotly_bin_count :: "real option"
  seaborn_bin_count :: int
  selected_species_list :: "string list"

definition all_inputs :: "input_id list" where
  "all_inputs = [SelectedAttribute, PlotlyBinCount, SeabornBinCount, SelectedSpeciesList]"

fun input_name :: "input_id \<Rightarrow> string" where
  "input_name SelectedAttribute = ''selected_attribute''"
| "input_name PlotlyBinCount = ''plotly_bin_count''"
| "input_name SeabornBinCount = ''seaborn_bin_count''"
| "input_name SelectedSpeciesList = ''selected_species_list''"

fun read_input :: "inputs \<Rightarrow> input_id \<Rightarrow> input_value" where
  "read_input st SelectedAttribute = VStr (selected_attribute st)"
| "read_input st PlotlyBinCount = VNum (plotly_bin_count st)"
| "read_input st SeabornBinCount = VInt (seaborn_bin_count st)"
| "read_input st SelectedSpeciesList = VStrs (selected_species_list st)"

definition inputs_assoc :: "inputs \<Rightarrow> (string \<times> input_value) list" where
  "inputs_assoc st = map (\<lambda>i. (input_name i, read_input st i)) all_inputs"

definition initial_inputs :: inputs where
  "initial_inputs =
     \<lparr>selected_attribute = ''bill_length_mm'', plotly_bin_count = Some 50, seaborn_bin_count = 50,
      selected_species_list = [''Adelie'', ''Gentoo'', ''Chinstrap'']\<rparr>"

definition inputs_wf :: "inputs \<Rightarrow> bool" where
  "inputs_wf st \<longleftrightarrow> list_all (\<lambda>i. widget_accepts app_ui (input_name i) (read_input st i)) all_inputs"

text \<open>An event is the browser writing one input; the client sends only values its widget allows.\<close>

datatype ui_event =
    SetAttribute string
  | SetPlotlyBins "real option"
  | SetSeabornBins int
  | SetSpecies "string list"

fun event_input :: "ui_event \<Rightarrow> input_id" where
  "event_input (SetAttribute _) = SelectedAttribute"
| "event_input (SetPlotlyBins _) = PlotlyBinCount"
| "event_input (SetSeabornBins _) = SeabornBinCount"
| "event_input (SetSpecies _) = SelectedSpeciesList"

fun apply_event :: "inputs \<Rightarrow> ui_event \<Rightarrow> inputs" where
  "apply_event st (SetAttribute c) = st\<lparr>selected_attribute := c\<rparr>"
| "apply_event st (SetPlotlyBins b) = st\<lparr>plotly_bin_count := b\<rparr>"
| "apply_event st (SetSeabornBins b) = st\<lparr>seaborn_bin_count := b\<rparr>"
| "apply_event st (SetSpecies s) = st\<lparr>selected_species_list := s\<rparr>"

fun event_value :: "ui_event \<Rightarrow> input_value" where
  "event_value (SetAttribute c) = VStr c"
| "event_value (SetPlotlyBins b) = VNum b"
| "event_value (SetSeabornBins b) = VInt b"
| "event_value (SetSpecies s) = VStrs s"

definition event_ok :: "ui_event \<Rightarrow> bool" where
  "event_ok e \<longleftrightarrow> widget_accepts app_ui (input_name (event_input e)) (event_value e)"

section \<open>Lemmas\<close>

lemma widget_accepts_app_ui:
  "widget_accepts app_ui i v \<longleftrightarrow>
     (i = ''selected_attribute'' \<and> v \<in> VStr ` {''bill_length_mm'', ''bill_depth_mm'', ''body_mass_g''})
   \<or> (i = ''plotly_bin_count'' \<and> (\<exists>x. v = VNum x))
   \<or> (i = ''seaborn_bin_count'' \<and> (\<exists>n. v = VInt n \<and> 0 \<le> n \<and> n \<le> 100))
   \<or> (i = ''selected_species_list'' \<and> (\<exists>s. v = VStrs s \<and> subseq s [''Adelie'', ''Gentoo'', ''Chinstrap'']))"
  by (auto simp: app_ui_def)

lemma inputs_wf_iff:
  "inputs_wf st \<longleftrightarrow>
     selected_attribute st \<in> {''bill_length_mm'', ''bill_depth_mm'', ''body_mass_g''}
   \<and> 0 \<le> seaborn_bin_count st \<and> seaborn_bin_count st \<le> 100
   \<and> subseq (selected_species_list st) [''Adelie'', ''Gentoo'', ''Chinstrap'']"
  by (auto simp: inputs_wf_def all_inputs_def widget_accepts_app_ui)

lemma event_ok_iff:
  "event_ok e \<longleftrightarrow>
     (case e of
        SetAttribute c \<Rightarrow> c \<in> {''bill_length_mm'', ''bill_depth_mm'', ''body_mass_g''}
      | SetPlotlyBins b \<Rightarrow> True
      | SetSeabornBins n \<Rightarrow> 0 \<le> n \<and> n \<le> 100
      | SetSpecies s \<Rightarrow> subseq s [''Adelie'', ''Gentoo'', ''Chinstrap''])"
  by (cases e) (auto simp: event_ok_def widget_accepts_app_ui)

lemma read_apply_event_same [simp]: "read_input (apply_event st e) (event_input e) = event_value e"
  by (cases e) simp_all

lemma read_apply_event_other [simp]:
  "i \<noteq> event_input e \<Longrightarrow> read_input (apply_event st e) i = read_input st i"
  by (cases e; cases i) simp_all

lemma apply_event_inputs_wf: "inputs_wf st \<Longrightarrow> event_ok e \<Longrightarrow> inputs_wf (apply_event st e)"
  by (cases e) (simp_all add: inputs_wf_iff event_ok_iff)

lemma inputs_wf_initial: "inputs_wf initial_inputs"
  by (simp add: inputs_wf_iff initial_inputs_def)

lemma inputs_wf_numeric_attribute: "inputs_wf st \<Longrightarrow> numeric_column (selected_attribute st)"
  by (auto simp: inputs_wf_iff numeric_column_iff)

end
