(* ===== verification/Render.thy ===== *)
theory Render
  imports Species_Filter App_Ui
begin

text \<open>
  The Render Stage: the five output functions of \<^verbatim>\<open>server()\<close> in \<^verbatim>\<open>src/app.py\<close>
  (\<^verbatim>\<open>data_table\<close>, \<^verbatim>\<open>data_grid\<close>, \<^verbatim>\<open>plotly_histogram\<close>,
  \<^verbatim>\<open>seaborn_histogram\<close>, \<^verbatim>\<open>plotly_scatterplot\<close>, lines 49--104) and the two
  module-level data-frame renderers \<^verbatim>\<open>penguins_datatable\<close> and
  \<^verbatim>\<open>penguins_datagrid\<close> (lines 105--117). An output's value is the artifact the
  function hands to Shiny, that is the call it makes to the plotting or table library with
  its arguments (the frame, the column, the bin count, the colour key, the title), or the
  exception it raises before that call. Each function takes the value of the calculation
  \<^verbatim>\<open>filtered_data()\<close> (itself a result, as the calculation could raise) and the
  session's inputs; the order of the Python argument evaluation is kept: in
  \<^verbatim>\<open>px.histogram(filtered_data(), ..., nbins=int(bins), ...)\<close> the calculation is
  read before \<^verbatim>\<open>int(bins)\<close> is evaluated. What the libraries then draw is not modelled.
\<close>

datatype artifact =
    TableView frame
  | PlotlyHistogramFig frame string int string string
  | SeabornHistogramFig frame string int string string
  | PlotlyScatterFig frame string string string string "(string \<times> string) list" string
  | DataTableView frame
  | DataGridView frame

definition data_table :: "frame result \<Rightarrow> artifact result" where
  "data_table fd = rbind fd (\<lambda>d. Inr (TableView d))"

definition data_grid :: "frame result \<Rightarrow> artifact result" where
  "data_grid fd = rbind fd (\<lambda>d. Inr (TableView d))"

definition plotly_histogram :: "inputs \<Rightarrow> frame result \<Rightarrow> artifact result" where
  "plotly_histogram inp fd =
     (let col = selected_attribute inp; bins = plotly_bin_count inp
      in rbind fd (\<lambda>d. rbind (py_int bins) (\<lambda>n.
           Inr (PlotlyHistogramFig d col n ''species'' (''Plotly Histogram of '' @ col)))))"

text \<open>
  \<^verbatim>\<open>int(bins)\<close> on the slider's value, a Python \<^verbatim>\<open>int\<close>, is the value itself.
\<close>

definition seaborn_histogram :: "inputs \<Rightarrow> frame result \<Rightarrow> artifact result" where
  "seaborn_histogram inp fd =
     (let col = selected_attribute inp; bins = seaborn_bin_count inp
      in rbind fd (\<lambda>d. Inr (SeabornHistogramFig d col bins ''species'' (''Seaborn Histogram of '' @ col))))"

definition scatter_labels :: "(string \<times> string) list" where
  "scatter_labels = [(''bill_depth_mm'', ''Bill Depth (mm)''), (''bill_length_mm'', ''Bill Length (mm)'')]"

definition plotly_scatterplot :: "frame result \<Rightarrow> artifact result" where
  "plotly_scatterplot fd =
     rbind fd (\<lambda>d. Inr (PlotlyScatterFig d ''bill_depth_mm'' ''bill_length_mm'' ''species'' ''species''
       scatter_labels ''Bill Depth vs. Bill Length by Penguin Species''))"

section \<open>The module-level data-frame renderers\<close>

text \<open>
  \<^verbatim>\<open>penguins_datatable\<close> and \<^verbatim>\<open>penguins_datagrid\<close> are defined at module level,
  outside \<^verbatim>\<open>server()\<close>. Their bodies look up the name \<^verbatim>\<open>filtered_data\<close> in the
  module's globals, where it is not bound: \<^verbatim>\<open>filtered_data\<close> is a local of
  \<^verbatim>\<open>server()\<close>. The globals are the names the module binds, in the order it binds
  them.
\<close>

definition module_globals :: "string list" where
  "module_globals =
     [''App'', ''ui'', ''render'', ''reactive'', ''render_widget'', ''output_widget'', ''px'',
      ''load_penguins'', ''sns'', ''plt'', ''penguins_df'', ''app_ui'', ''server'',
      ''penguins_datatable'', ''penguins_datagrid'', ''app'']"

definition call_global :: "string \<Rightarrow> 'a result \<Rightarrow> 'a result" where
  "call_global name v = (if name \<in> set module_globals then v else Inl NameError)"

definition penguins_datatable :: "frame result \<Rightarrow> artifact result" where
  "penguins_datatable fd = rbind (call_global ''filtered_data'' fd) (\<lambda>d. Inr (DataTableView d))"

definition penguins_datagrid :: "frame result \<Rightarrow> artifact result" where
  "penguins_datagrid fd = rbind (call_global ''filtered_data'' fd) (\<lambda>d. Inr (DataGridView d))"

section \<open>What an artifact shows\<close>

fun artifact_rows :: "artifact \<Rightarrow> frame" where
  "artifact_rows (TableView d) = d"
| "artifact_rows (PlotlyHistogramFig d _ _ _ _) = d"
| "artifact_rows (SeabornHistogramFig d _ _ _ _) = d"
| "artifact_rows (PlotlyScatterFig d _ _ _ _ _ _) = d"
| "artifact_rows (DataTableView d) = d"
| "artifact_rows (DataGridView d) = d"

text \<open>
  A well-formed artifact: the columns a chart plots are numeric columns of the frame and its
  colour key is a column. This is what the chart libraries read from the frame they are
  given, whether it has rows or not.
\<close>

fun artifact_ok :: "artifact \<Rightarrow> bool" where
  "artifact_ok (PlotlyHistogramFig d x n c t) = (numeric_column x \<and> c \<in> set frame_columns)"
| "artifact_ok (SeabornHistogramFig d x n c t) = (numeric_column x \<and> c \<in> set frame_columns)"
| "artifact_ok (PlotlyScatterFig d x y c s l t) =
     (numeric_column x \<and> numeric_column y \<and> c \<in> set frame_columns \<and> s \<in> set frame_columns)"
| "artifact_ok _ = True"

end
