(* ===== verification/Reactive.thy ===== *)
theory Reactive
  imports Render
begin

text \<open>
  The reactive graph of one session of \<^verbatim>\<open>server()\<close> (\<^verbatim>\<open>src/app.py\<close>, lines
  42--104) and the Reactive Scheduler that runs it. The graph is the code's: one reactive
  calculation (\<^verbatim>\<open>@reactive.calc filtered_data\<close>) and five outputs, each reading the
  inputs and the calculation its body reads, in the order it reads them. The scheduler is
  Shiny's (an external framework, modelled from the specification, section 4.3, and the
  glossary): a calculation is cached until a value it read changes; writing an input
  invalidates the consumers that read it, and an invalidated calculation invalidates its own
  consumers; a flush re-executes the invalidated outputs, and an output that reads an
  invalidated calculation re-executes it first, once. An input is written only when its
  value changes, since the Shiny client does not resend an unchanged value. The session
  state is explicit: the input values, the calculation's cache, the cache of each output
  (what the placeholder shows), and the log of executions, the observable order of the
  work the scheduler does.
\<close>

datatype output_id = DataTable | DataGrid | PlotlyHistogram | SeabornHistogram | PlotlyScatterplot

datatype source = In input_id | CalcFilteredData

definition calc_reads :: "source list" where
  "calc_reads = [In SelectedSpeciesList]"

fun output_reads :: "output_id \<Rightarrow> source list" where
  "output_reads DataTable = [CalcFilteredData]"
| "output_reads DataGrid = [CalcFilteredData]"
| "output_reads PlotlyHistogram = [In SelectedAttribute, In PlotlyBinCount, CalcFilteredData]"
| "output_reads SeabornHistogram = [In SelectedAttribute, In SeabornBinCount, CalcFilteredData]"
| "output_reads PlotlyScatterplot = [CalcFilteredData]"

text \<open>The outputs in the order \<^verbatim>\<open>server()\<close> registers them, and their placeholder ids.\<close>

definition server_outputs :: "output_id list" where
  "server_outputs = [DataTable, DataGrid, PlotlyHistogram, SeabornHistogram, PlotlyScatterplot]"

fun output_name :: "output_id \<Rightarrow> string" where
  "output_name DataTable = ''data_table''"
| "output_name DataGrid = ''data_grid''"
| "output_name PlotlyHistogram = ''plotly_histogram''"
| "output_name SeabornHistogram = ''seaborn_histogram''"
| "output_name PlotlyScatterplot = ''plotly_scatterplot''"

fun source_inputs :: "source \<Rightarrow> input_id list" where
  "source_inputs (In i) = [i]"
| "source_inputs CalcFilteredData = []"

definition calc_inputs :: "input_id list" where
  "calc_inputs = concat (map source_inputs calc_reads)"

text \<open>The inputs an output depends on, directly or through the calculation.\<close>

definition output_inputs :: "output_id \<Rightarrow> input_id list" where
  "output_inputs oi =
     concat (map (\<lambda>s. case s of In i \<Rightarrow> [i] | CalcFilteredData \<Rightarrow> calc_inputs) (output_reads oi))"

section \<open>The bodies and the pure dashboard\<close>

definition calc_value :: "frame \<Rightarrow> inputs \<Rightarrow> frame result" where
  "calc_value df inp = filtered_data df (selected_species_list inp)"

fun run_output :: "inputs \<Rightarrow> frame result \<Rightarrow> output_id \<Rightarrow> artifact result" where
  "run_output inp fd DataTable = data_table fd"
| "run_output inp fd DataGrid = data_grid fd"
| "run_output inp fd PlotlyHistogram = plotly_histogram inp fd"
| "run_output inp fd SeabornHistogram = seaborn_histogram inp fd"
| "run_output inp fd PlotlyScatterplot = plotly_scatterplot fd"

text \<open>
  The abstract specification: what each placeholder should show for given inputs, every
  output a function of the filtered view and its own inputs.
\<close>

definition output_value :: "frame \<Rightarrow> inputs \<Rightarrow> output_id \<Rightarrow> artifact result" where
  "output_value df inp oi = run_output inp (calc_value df inp) oi"

section \<open>The session and the scheduler\<close>

datatype exec = ExecCalc | ExecOutput output_id

record session =
  sess_inputs :: inputs
  calc_cache :: "frame result option"
  out_cache :: "output_id \<Rightarrow> artifact result option"
  exec_log :: "exec list"

text \<open>Reading the calculation: its cached value, or a fresh execution that is cached.\<close>

definition get_calc :: "frame \<Rightarrow> session \<Rightarrow> frame result \<times> session" where
  "get_calc df st =
     (case calc_cache st of
        Some v \<Rightarrow> (v, st)
      | None \<Rightarrow>
          (let v = filtered_data df (selected_species_list (sess_inputs st))
           in (v, st\<lparr>calc_cache := Some v, exec_log := exec_log st @ [ExecCalc]\<rparr>)))"

definition exec_output :: "frame \<Rightarrow> output_id \<Rightarrow> session \<Rightarrow> session" where
  "exec_output df oi st =
     (let (fd, st1) = get_calc df st
      in st1\<lparr>out_cache := (out_cache st1)(oi := Some (run_output (sess_inputs st1) fd oi)),
             exec_log := exec_log st1 @ [ExecOutput oi]\<rparr>)"

fun flush_list :: "frame \<Rightarrow> output_id list \<Rightarrow> session \<Rightarrow> session" where
  "flush_list df [] st = st"
| "flush_list df (oi # os) st =
     flush_list df os (if out_cache st oi = None then exec_output df oi st else st)"

definition flush :: "frame \<Rightarrow> session \<Rightarrow> session" where
  "flush df st = flush_list df server_outputs st"

text \<open>
  Invalidation follows the live dependency edges: a cached consumer that read the source is
  invalidated, and an invalidated calculation passes the invalidation on to its consumers.
\<close>

definition invalidate_calc :: "session \<Rightarrow> session" where
  "invalidate_calc st =
     (if calc_cache st = None then st
      else st\<lparr>calc_cache := None,
              out_cache := (\<lambda>oi. if CalcFilteredData \<in> set (output_reads oi) then None else out_cache st oi)\<rparr>)"

definition invalidate_input :: "input_id \<Rightarrow> session \<Rightarrow> session" where
  "invalidate_input i st =
     (let st1 = (if In i \<in> set calc_reads then invalidate_calc st else st)
      in st1\<lparr>out_cache := (\<lambda>oi. if In i \<in> set (output_reads oi) then None else out_cache st1 oi)\<rparr>)"

definition write_input :: "ui_event \<Rightarrow> session \<Rightarrow> session" where
  "write_input e st =
     (if read_input (sess_inputs st) (event_input e) = event_value e then st
      else invalidate_input (event_input e) (st\<lparr>sess_inputs := apply_event (sess_inputs st) e\<rparr>))"

definition session_step :: "frame \<Rightarrow> ui_event \<Rightarrow> session \<Rightarrow> session" where
  "session_step df e st = flush df (write_input e st)"

definition initial_session :: session where
  "initial_session = \<lparr>sess_inputs = initial_inputs, calc_cache = None, out_cache = (\<lambda>_. None), exec_log = []\<rparr>"

definition start_session :: "frame \<Rightarrow> session" where
  "start_session df = flush df initial_session"

text \<open>A run: the events of a session processed one after the other, each followed by a flush.\<close>

fun session_run :: "frame \<Rightarrow> ui_event list \<Rightarrow> session \<Rightarrow> session" where
  "session_run df [] st = st"
| "session_run df (e # es) st = session_run df es (session_step df e st)"

inductive reachable :: "frame \<Rightarrow> session \<Rightarrow> bool" for df where
  start: "reachable df (start_session df)"
| step: "reachable df st \<Longrightarrow> event_ok e \<Longrightarrow> reachable df (session_step df e st)"

section \<open>Invariants\<close>

text \<open>
  Coherence: every cached value is the value the body would compute from the current
  inputs, and a cached output implies a cached calculation (the edge it read is live).
\<close>

definition coherent :: "frame \<Rightarrow> session \<Rightarrow> bool" where
  "coherent df st \<longleftrightarrow>
     (case calc_cache st of None \<Rightarrow> True | Some v \<Rightarrow> v = calc_value df (sess_inputs st))
   \<and> list_all (\<lambda>oi. case out_cache st oi of
                      None \<Rightarrow> True
                    | Some v \<Rightarrow> v = output_value df (sess_inputs st) oi \<and> calc_cache st \<noteq> None)
       server_outputs"

definition settled :: "session \<Rightarrow> bool" where
  "settled st \<longleftrightarrow> list_all (\<lambda>oi. out_cache st oi \<noteq> None) server_outputs"

section \<open>Lemmas\<close>

lemma server_outputs_all [simp]: "oi \<in> set server_outputs"
  by (cases oi) (simp_all add: server_outputs_def)

lemma distinct_server_outputs [simp]: "distinct server_outputs"
  by (simp add: server_outputs_def)

lemma calc_read_by_output [simp]: "CalcFilteredData \<in> set (output_reads oi)"
  by (cases oi) simp_all

lemma calc_inputs_eq: "calc_inputs = [SelectedSpeciesList]"
  by (simp add: calc_inputs_def calc_reads_def)

lemma coherent_iff:
  "coherent df st \<longleftrightarrow>
     (\<forall>v. calc_cache st = Some v \<longrightarrow> v = calc_value df (sess_inputs st))
   \<and> (\<forall>oi v. out_cache st oi = Some v \<longrightarrow> v = output_value df (sess_inputs st) oi \<and> calc_cache st \<noteq> None)"
  by (auto simp: coherent_def list_all_iff split: option.splits)

lemma get_calc_coherent:
  assumes "coherent df st"
  shows "get_calc df st =
           (calc_value df (sess_inputs st),
            st\<lparr>calc_cache := Some (calc_value df (sess_inputs st)),
               exec_log := exec_log st @ (if calc_cache st = None then [ExecCalc] else [])\<rparr>)"
  using assms by (auto simp: get_calc_def coherent_iff calc_value_def Let_def split: option.splits)

lemma exec_output_coherent:
  assumes "coherent df st"
  shows "exec_output df oi st =
           st\<lparr>calc_cache := Some (calc_value df (sess_inputs st)),
              out_cache := (out_cache st)(oi := Some (output_value df (sess_inputs st) oi)),
              exec_log := exec_log st @ (if calc_cache st = None then [ExecCalc] else []) @ [ExecOutput oi]\<rparr>"
  using assms by (simp add: exec_output_def get_calc_coherent output_value_def)

lemma coherent_exec_output: "coherent df st \<Longrightarrow> coherent df (exec_output df oi st)"
  by (simp add: exec_output_coherent coherent_iff)

lemma exec_output_fields:
  assumes "coherent df st"
  shows "sess_inputs (exec_output df oi st) = sess_inputs st"
    and "calc_cache (exec_output df oi st) = Some (calc_value df (sess_inputs st))"
    and "out_cache (exec_output df oi st) = (out_cache st)(oi := Some (output_value df (sess_inputs st) oi))"
    and "exec_log (exec_output df oi st) =
           exec_log st @ (if calc_cache st = None then [ExecCalc] else []) @ [ExecOutput oi]"
  using assms by (simp_all add: exec_output_coherent)

text \<open>The effect of flushing a list of outputs from a coherent session, field by field.\<close>

lemma flush_list_state:
  assumes "coherent df st"
  shows "coherent df (flush_list df os st) \<and> sess_inputs (flush_list df os st) = sess_inputs st
       \<and> out_cache (flush_list df os st) =
            (\<lambda>oi. if oi \<in> set os \<and> out_cache st oi = None
                  then Some (output_value df (sess_inputs st) oi) else out_cache st oi)
       \<and> calc_cache (flush_list df os st) =
            (if \<exists>oi \<in> set os. out_cache st oi = None
             then Some (calc_value df (sess_inputs st)) else calc_cache st)"
  using assms
proof (induction os arbitrary: st)
  case Nil
  then show ?case by simp
next
  case (Cons oi os)
  show ?case
  proof (cases "out_cache st oi = None")
    case True
    have c1: "coherent df (exec_output df oi st)" using Cons.prems by (rule coherent_exec_output)
    show ?thesis
      using True Cons.IH [OF c1] by (auto simp: exec_output_fields [OF Cons.prems] fun_eq_iff)
  next
    case False
    then show ?thesis using Cons by (auto simp: fun_eq_iff)
  qed
qed

lemma flush_list_log:
  assumes "coherent df st" and "distinct os"
  shows "exec_log (flush_list df os st) =
           exec_log st
           @ (if calc_cache st = None \<and> (\<exists>oi \<in> set os. out_cache st oi = None) then [ExecCalc] else [])
           @ map ExecOutput (filter (\<lambda>oi. out_cache st oi = None) os)"
  using assms
proof (induction os arbitrary: st)
  case Nil
  then show ?case by simp
next
  case (Cons oi os)
  show ?case
  proof (cases "out_cache st oi = None")
    case True
    have c1: "coherent df (exec_output df oi st)" using Cons.prems(1) by (rule coherent_exec_output)
    show ?thesis
      using True Cons.IH [OF c1] Cons.prems(2)
      by (simp add: exec_output_fields [OF Cons.prems(1)])
         (intro arg_cong [where f = "map ExecOutput"] filter_cong; auto)
  next
    case False
    then show ?thesis using Cons by auto
  qed
qed

lemma flush_list_settled_id:
  "(\<forall>oi \<in> set os. out_cache st oi \<noteq> None) \<Longrightarrow> flush_list df os st = st"
  by (induction os) auto

lemma in_output_inputs_iff:
  "i \<in> set (output_inputs oi) \<longleftrightarrow>
     In i \<in> set (output_reads oi) \<or> (CalcFilteredData \<in> set (output_reads oi) \<and> i \<in> set calc_inputs)"
  by (cases oi; cases i) (simp_all add: output_inputs_def calc_inputs_def calc_reads_def)

lemma calc_inputs_output_inputs: "i \<in> set calc_inputs \<Longrightarrow> i \<in> set (output_inputs oi)"
  by (simp add: in_output_inputs_iff)

lemma in_calc_inputs_iff: "i \<in> set calc_inputs \<longleftrightarrow> In i \<in> set calc_reads"
  by (cases i) (simp_all add: calc_inputs_def calc_reads_def)

text \<open>
  Invalidation along the live edges invalidates exactly the transitive dependents of the
  input: the calculation if it read the input, and every output that read the input directly
  or through the calculation.
\<close>

lemma invalidate_input_closed:
  assumes live: "\<forall>oi. out_cache st oi \<noteq> None \<longrightarrow> calc_cache st \<noteq> None"
  shows "invalidate_input i st =
           st\<lparr>calc_cache := (if i \<in> set calc_inputs then None else calc_cache st),
              out_cache := (\<lambda>oi. if i \<in> set (output_inputs oi) then None else out_cache st oi)\<rparr>"
proof (cases "i \<in> set calc_inputs")
  case True
  then show ?thesis
  proof (cases "calc_cache st = None")
    case True
    have "out_cache st oi = None" for oi using live True by blast
    then have "out_cache st = (\<lambda>_. None)" by (simp add: fun_eq_iff)
    with True \<open>i \<in> set calc_inputs\<close> show ?thesis
      by (simp add: invalidate_input_def invalidate_calc_def in_calc_inputs_iff fun_eq_iff)
  next
    case False
    with \<open>i \<in> set calc_inputs\<close> show ?thesis
      by (auto simp: invalidate_input_def invalidate_calc_def in_calc_inputs_iff in_output_inputs_iff fun_eq_iff)
  qed
next
  case False
  then show ?thesis
    by (simp add: invalidate_input_def in_calc_inputs_iff in_output_inputs_iff)
qed

lemma calc_value_reads:
  "\<forall>i \<in> set calc_inputs. read_input inp i = read_input inp' i \<Longrightarrow> calc_value df inp = calc_value df inp'"
  by (simp add: calc_inputs_eq calc_value_def)

lemma output_value_reads:
  assumes "\<forall>i \<in> set (output_inputs oi). read_input inp i = read_input inp' i"
  shows "output_value df inp oi = output_value df inp' oi"
proof -
  have c: "calc_value df inp = calc_value df inp'"
    using assms by (intro calc_value_reads) (simp add: in_output_inputs_iff)
  show ?thesis
    using assms c
    by (cases oi) (simp_all add: output_value_def output_inputs_def calc_inputs_eq
        plotly_histogram_def seaborn_histogram_def)
qed

lemma apply_event_same: "read_input inp (event_input e) = event_value e \<Longrightarrow> apply_event inp e = inp"
  by (cases e) simp_all

lemma coherent_live: "coherent df st \<Longrightarrow> out_cache st oi \<noteq> None \<Longrightarrow> calc_cache st \<noteq> None"
  by (auto simp: coherent_iff)

lemma coherent_write_input:
  assumes "coherent df st"
  shows "coherent df (write_input e st)"
proof (cases "read_input (sess_inputs st) (event_input e) = event_value e")
  case True
  with assms show ?thesis by (simp add: write_input_def)
next
  case False
  let ?inp = "sess_inputs st" and ?inp' = "apply_event (sess_inputs st) e" and ?i = "event_input e"
  have ws: "write_input e st =
      st\<lparr>sess_inputs := ?inp',
         calc_cache := (if ?i \<in> set calc_inputs then None else calc_cache st),
         out_cache := (\<lambda>oi. if ?i \<in> set (output_inputs oi) then None else out_cache st oi)\<rparr>"
  proof -
    have live: "\<forall>oi. out_cache (st\<lparr>sess_inputs := ?inp'\<rparr>) oi \<noteq> None \<longrightarrow> calc_cache (st\<lparr>sess_inputs := ?inp'\<rparr>) \<noteq> None"
      using coherent_live [OF assms] by simp
    have "invalidate_input ?i (st\<lparr>sess_inputs := ?inp'\<rparr>) =
      st\<lparr>sess_inputs := ?inp'\<rparr>\<lparr>calc_cache := (if ?i \<in> set calc_inputs then None else calc_cache st),
         out_cache := (\<lambda>oi. if ?i \<in> set (output_inputs oi) then None else out_cache st oi)\<rparr>"
      using invalidate_input_closed [OF live] by (simp cong: if_cong)
    then show ?thesis using False by (simp add: write_input_def)
  qed
  have cv: "?i \<notin> set calc_inputs \<Longrightarrow> calc_value df ?inp' = calc_value df ?inp"
    by (rule calc_value_reads) (metis read_apply_event_other)
  have ov: "?i \<notin> set (output_inputs oi) \<Longrightarrow> output_value df ?inp' oi = output_value df ?inp oi" for oi
    by (rule output_value_reads) (metis read_apply_event_other)
  show ?thesis
    using assms cv ov calc_inputs_output_inputs unfolding ws coherent_iff by auto
qed

lemma sess_inputs_write_input: "sess_inputs (write_input e st) = apply_event (sess_inputs st) e"
  by (auto simp: write_input_def invalidate_input_def invalidate_calc_def Let_def apply_event_same)

lemma coherent_initial: "coherent df initial_session"
  by (simp add: coherent_def initial_session_def list_all_iff)

lemma flush_coherent_settled:
  assumes "coherent df st"
  shows "coherent df (flush df st) \<and> settled (flush df st) \<and> sess_inputs (flush df st) = sess_inputs st"
  using flush_list_state [OF assms, of server_outputs]
  by (auto simp: flush_def settled_def list_all_iff)

lemma reachable_invariant:
  "reachable df st \<Longrightarrow> coherent df st \<and> settled st \<and> inputs_wf (sess_inputs st)"
proof (induction rule: reachable.induct)
  case start
  show ?case
    using flush_coherent_settled [OF coherent_initial]
    by (simp add: start_session_def initial_session_def inputs_wf_initial)
next
  case (step st e)
  have "coherent df (write_input e st)" using step.IH by (simp add: coherent_write_input)
  then show ?case
    using flush_coherent_settled step.IH step.hyps(2)
    by (simp add: session_step_def sess_inputs_write_input apply_event_inputs_wf)
qed

lemma write_input_changed:
  assumes "coherent df st" and "read_input (sess_inputs st) (event_input e) \<noteq> event_value e"
  shows "write_input e st =
           st\<lparr>sess_inputs := apply_event (sess_inputs st) e,
              calc_cache := (if event_input e \<in> set calc_inputs then None else calc_cache st),
              out_cache := (\<lambda>oi. if event_input e \<in> set (output_inputs oi) then None else out_cache st oi)\<rparr>"
proof -
  have live: "\<forall>oi. out_cache (st\<lparr>sess_inputs := apply_event (sess_inputs st) e\<rparr>) oi \<noteq> None
      \<longrightarrow> calc_cache (st\<lparr>sess_inputs := apply_event (sess_inputs st) e\<rparr>) \<noteq> None"
    using coherent_live [OF assms(1)] by simp
  show ?thesis
    using assms(2) invalidate_input_closed [OF live] by (simp add: write_input_def cong: if_cong)
qed

lemma settled_calc_cached: "coherent df st \<Longrightarrow> settled st \<Longrightarrow> calc_cache st \<noteq> None"
  using coherent_live [of df st DataTable] by (simp add: settled_def server_outputs_def)

lemma session_step_exec_log:
  assumes "coherent df st" and "settled st"
    and "read_input (sess_inputs st) (event_input e) \<noteq> event_value e"
  shows "exec_log (session_step df e st) =
           exec_log st @ (if event_input e \<in> set calc_inputs then [ExecCalc] else [])
           @ map ExecOutput (filter (\<lambda>oi. event_input e \<in> set (output_inputs oi)) server_outputs)"
proof -
  let ?st1 = "write_input e st" and ?i = "event_input e"
  have c1: "coherent df ?st1" using assms(1) by (rule coherent_write_input)
  have cached: "out_cache st oi \<noteq> None" for oi using assms(2) by (simp add: settled_def list_all_iff)
  have calc: "calc_cache st \<noteq> None" using assms(1,2) by (rule settled_calc_cached)
  have ws: "out_cache ?st1 oi = (if ?i \<in> set (output_inputs oi) then None else out_cache st oi)"
      "calc_cache ?st1 = (if ?i \<in> set calc_inputs then None else calc_cache st)"
      "exec_log ?st1 = exec_log st" for oi
    by (simp_all add: write_input_changed [OF assms(1,3)])
  have pend: "(out_cache ?st1 oi = None) = (?i \<in> set (output_inputs oi))" for oi
    using cached by (simp add: ws)
  have f: "filter (\<lambda>oi. out_cache ?st1 oi = None) server_outputs = filter (\<lambda>oi. ?i \<in> set (output_inputs oi)) server_outputs"
    by (simp add: pend)
  have c: "(calc_cache ?st1 = None \<and> (\<exists>oi \<in> set server_outputs. out_cache ?st1 oi = None)) = (?i \<in> set calc_inputs)"
    using calc calc_inputs_output_inputs [of ?i DataTable] by (auto simp: ws(2) pend)
  have "exec_log (flush df ?st1) =
      exec_log ?st1 @ (if calc_cache ?st1 = None \<and> (\<exists>oi \<in> set server_outputs. out_cache ?st1 oi = None) then [ExecCalc] else [])
      @ map ExecOutput (filter (\<lambda>oi. out_cache ?st1 oi = None) server_outputs)"
    unfolding flush_def by (rule flush_list_log [OF c1 distinct_server_outputs])
  then show ?thesis by (simp only: session_step_def f c ws(3))
qed

lemma session_step_unchanged:
  "settled st \<Longrightarrow> read_input (sess_inputs st) (event_input e) = event_value e \<Longrightarrow> session_step df e st = st"
  by (simp add: session_step_def write_input_def flush_def settled_def list_all_iff flush_list_settled_id)

lemma sess_inputs_start: "sess_inputs (start_session df) = initial_inputs"
  using flush_coherent_settled [OF coherent_initial, of df]
  by (simp add: start_session_def initial_session_def)

lemma session_step_state:
  assumes "coherent df st"
  shows "coherent df (session_step df e st) \<and> settled (session_step df e st)
       \<and> sess_inputs (session_step df e st) = apply_event (sess_inputs st) e"
  using flush_coherent_settled [OF coherent_write_input [OF assms]]
  by (simp add: session_step_def sess_inputs_write_input)

lemma settled_out_cache:
  assumes inv: "coherent df st" "settled st"
  shows "out_cache st oi = Some (output_value df (sess_inputs st) oi)"
proof -
  from inv(2) have "out_cache st oi \<noteq> None" by (simp add: settled_def list_all_iff)
  then obtain v where v: "out_cache st oi = Some v" by auto
  with inv(1) show ?thesis by (simp add: coherent_iff)
qed

lemma reachable_out_cache:
  "reachable df st \<Longrightarrow> out_cache st oi = Some (output_value df (sess_inputs st) oi)"
  using reachable_invariant settled_out_cache by blast

lemma reachable_sess_inputs_step:
  "reachable df st \<Longrightarrow> sess_inputs (session_step df e st) = apply_event (sess_inputs st) e"
  using reachable_invariant session_step_state by blast

lemma output_value_simps:
  "output_value df inp DataTable = Inr (TableView (species_view (selected_species_list inp) df))"
  "output_value df inp DataGrid = Inr (TableView (species_view (selected_species_list inp) df))"
  "output_value df inp PlotlyHistogram =
     (case plotly_bin_count inp of
        None \<Rightarrow> Inl TypeError
      | Some x \<Rightarrow> Inr (PlotlyHistogramFig (species_view (selected_species_list inp) df)
                   (selected_attribute inp) (py_trunc x) ''species''
                   (''Plotly Histogram of '' @ selected_attribute inp)))"
  "output_value df inp SeabornHistogram =
     Inr (SeabornHistogramFig (species_view (selected_species_list inp) df)
            (selected_attribute inp) (seaborn_bin_count inp) ''species''
            (''Seaborn Histogram of '' @ selected_attribute inp))"
  "output_value df inp PlotlyScatterplot =
     Inr (PlotlyScatterFig (species_view (selected_species_list inp) df) ''bill_depth_mm'' ''bill_length_mm''
            ''species'' ''species'' scatter_labels ''Bill Depth vs. Bill Length by Penguin Species'')"
  by (simp_all add: output_value_def calc_value_def filtered_data_eq_view data_table_def data_grid_def
      plotly_histogram_def seaborn_histogram_def plotly_scatterplot_def Let_def split: option.splits)

lemma session_step_exec_log_cases:
  assumes "coherent df st" and "settled st"
  shows "exec_log (session_step df e st) =
           exec_log st @
           (if read_input (sess_inputs st) (event_input e) = event_value e then []
            else (if event_input e \<in> set calc_inputs then [ExecCalc] else [])
                 @ map ExecOutput (filter (\<lambda>oi. event_input e \<in> set (output_inputs oi)) server_outputs))"
  using assms session_step_exec_log [OF assms] session_step_unchanged [OF assms(2)] by auto

lemma session_run_reachable:
  "reachable df st \<Longrightarrow> list_all event_ok es \<Longrightarrow> reachable df (session_run df es st)"
  by (induction es arbitrary: st) (simp_all add: reachable.step)

lemma session_run_inputs:
  "reachable df st \<Longrightarrow> list_all event_ok es \<Longrightarrow>
     sess_inputs (session_run df es st) = foldl apply_event (sess_inputs st) es"
  by (induction es arbitrary: st) (simp_all add: reachable.step reachable_sess_inputs_step)

end
