(* ===== verification/Flush_Loop.thy ===== *)
theory Flush_Loop
  imports Reactive "HOL-Library.While_Combinator"
begin

text \<open>
  Shiny's flush as the loop it is: the scheduler keeps a queue of the invalidated outputs and
  runs \<^verbatim>\<open>while queue: ctx = queue.get(); ctx.execute_flush_callbacks()\<close>. All
  outputs of \<^verbatim>\<open>server()\<close> have the default priority, so the queue is first in, first
  out, in the order the outputs were invalidated, which is their registration order. The
  loop is \<open>while_option\<close> over the pair (session, queue). In Shiny an execution may
  invalidate further contexts and so grow the queue; no body of this program writes an
  input or invalidates anything, so the queue of a flush is the list of outputs pending when
  it starts, and the loop computes the recursive \<open>flush\<close> of \<open>Reactive\<close>
  (\<open>flush_loop_eq\<close>, \<open>flush_list_fold_pending\<close>). The property proved is that it drains: from a coherent session
  it returns, every output is valid afterwards, and every invalidated output has been
  re-executed.
\<close>

definition pending_queue :: "session \<Rightarrow> output_id list" where
  "pending_queue st = filter (\<lambda>oi. out_cache st oi = None) server_outputs"

definition flush_body :: "frame \<Rightarrow> session \<times> output_id list \<Rightarrow> session \<times> output_id list" where
  "flush_body df = (\<lambda>(st, q). (exec_output df (hd q) st, tl q))"

definition flush_loop :: "frame \<Rightarrow> session \<Rightarrow> session option" where
  "flush_loop df st =
     map_option fst (while_option (\<lambda>(st, q). q \<noteq> []) (flush_body df) (st, pending_queue st))"

section \<open>Lemmas\<close>

lemma flush_body_Cons [simp]: "flush_body df (st, oi # q) = (exec_output df oi st, q)"
  by (simp add: flush_body_def)

lemma while_flush_fold:
  "while_option (\<lambda>(st, q). q \<noteq> []) (flush_body df) (st, q) = Some (fold (exec_output df) q st, [])"
proof (induction q arbitrary: st)
  case Nil
  show ?case by (simp add: while_option_unfold [of _ _ "(st, [])"])
next
  case (Cons oi q)
  show ?case
    by (simp add: while_option_unfold [of _ _ "(st, oi # q)"] Cons.IH)
qed

lemma out_cache_exec_output_other:
  "x \<noteq> oi \<Longrightarrow> out_cache (exec_output df oi st) x = out_cache st x"
  by (simp add: exec_output_def get_calc_def Let_def split: option.splits prod.splits)

lemma flush_list_fold_pending:
  "distinct os \<Longrightarrow> flush_list df os st = fold (exec_output df) (filter (\<lambda>oi. out_cache st oi = None) os) st"
proof (induction os arbitrary: st)
  case Nil
  then show ?case by simp
next
  case (Cons oi os)
  have "x \<in> set os \<Longrightarrow> out_cache (exec_output df oi st) x = out_cache st x" for x
    using Cons.prems out_cache_exec_output_other by (metis distinct.simps(2))
  then have f: "filter (\<lambda>x. out_cache (exec_output df oi st) x = None) os = filter (\<lambda>x. out_cache st x = None) os"
    by (auto intro!: filter_cong)
  show ?case
    using Cons by (simp add: f)
qed

lemma flush_loop_eq: "flush_loop df st = Some (fold (exec_output df) (pending_queue st) st)"
  by (simp add: flush_loop_def while_flush_fold)

section \<open>Properties of the flush loop\<close>

text \<open>
  C13. Liveness of the flush: from a coherent session the loop returns, every output is
  valid again afterwards, and every output that was invalidated has been re-executed.
\<close>

theorem flush_loop_drains:
  assumes "coherent df st"
  shows "\<exists>st'. flush_loop df st = Some st' \<and> settled st'
           \<and> (\<forall>oi. out_cache st oi = None \<longrightarrow> ExecOutput oi \<in> set (drop (length (exec_log st)) (exec_log st')))"
proof (intro exI conjI)
  show "flush_loop df st = Some (flush df st)" by (simp add: flush_loop_eq flush_def pending_queue_def flush_list_fold_pending)
  show "settled (flush df st)" using flush_coherent_settled [OF assms] by simp
  show "\<forall>oi. out_cache st oi = None \<longrightarrow> ExecOutput oi \<in> set (drop (length (exec_log st)) (exec_log (flush df st)))"
    using flush_list_log [OF assms distinct_server_outputs] by (simp add: flush_def)
qed

theorem flush_loop_drains_witness:
  "\<exists>st'. flush_loop (load_penguins [sample_penguin ''Gentoo'']) initial_session = Some st' \<and> settled st'
      \<and> (\<forall>oi. out_cache initial_session oi = None \<longrightarrow>
             ExecOutput oi \<in> set (drop (length (exec_log initial_session)) (exec_log st')))"
  by (rule flush_loop_drains [OF coherent_initial])

end
