(* ===== verification/Batch.thy ===== *)
theory Batch
  imports Reactive
begin

text \<open>
  Batched input messages. The Shiny client does not send each input change on its own: the
  changes made within one turn of the browser's event loop are sent as one \<^verbatim>\<open>update\<close>
  message, and the server sets every value of the message, each write invalidating the
  dependents of its input if the value changed, before it flushes once. The framework is
  external; this is modelled from its documented protocol and from the specification
  (section 4.3: a write schedules recomputation, recomputation is synchronous). A message is
  the list of its writes, in the order the client queued them.
\<close>

definition batch_step :: "frame \<Rightarrow> ui_event list \<Rightarrow> session \<Rightarrow> session" where
  "batch_step df es st = flush df (fold write_input es st)"

section \<open>Lemmas\<close>

lemma exec_log_write_input [simp]: "exec_log (write_input e st) = exec_log st"
  by (simp add: write_input_def invalidate_input_def invalidate_calc_def Let_def)

lemma fold_write_input_state:
  "coherent df st \<Longrightarrow>
     coherent df (fold write_input es st) \<and> exec_log (fold write_input es st) = exec_log st
   \<and> sess_inputs (fold write_input es st) = foldl apply_event (sess_inputs st) es"
  by (induction es arbitrary: st) (simp_all add: coherent_write_input sess_inputs_write_input)

lemma batch_step_state:
  assumes "coherent df st"
  shows "coherent df (batch_step df es st) \<and> settled (batch_step df es st)
       \<and> sess_inputs (batch_step df es st) = foldl apply_event (sess_inputs st) es"
  using flush_coherent_settled fold_write_input_state [OF assms, of es]
  by (simp add: batch_step_def)

text \<open>What a batch executes: the calculation once if it was invalidated, then each
  invalidated output once, in registration order.\<close>

lemma batch_step_log:
  assumes "coherent df st"
  shows "exec_log (batch_step df es st) =
           exec_log st
           @ (if calc_cache (fold write_input es st) = None
                 \<and> (\<exists>oi \<in> set server_outputs. out_cache (fold write_input es st) oi = None)
              then [ExecCalc] else [])
           @ map ExecOutput (filter (\<lambda>oi. out_cache (fold write_input es st) oi = None) server_outputs)"
  using flush_list_log [OF conjunct1 [OF fold_write_input_state [OF assms]] distinct_server_outputs]
    fold_write_input_state [OF assms, of es]
  by (simp add: batch_step_def flush_def)

text \<open>A run of messages from a coherent, settled session: each message leaves the session
  coherent and settled, and the inputs are those of all the writes in order.\<close>

lemma fold_batch_step_state:
  "coherent df st \<Longrightarrow> settled st \<Longrightarrow>
     coherent df (fold (batch_step df) ms st) \<and> settled (fold (batch_step df) ms st)
   \<and> sess_inputs (fold (batch_step df) ms st) = foldl apply_event (sess_inputs st) (concat ms)"
proof (induction ms arbitrary: st)
  case Nil
  then show ?case by simp
next
  case (Cons m ms)
  have "coherent df (batch_step df m st)" "settled (batch_step df m st)"
    using batch_step_state [OF Cons.prems(1)] by simp_all
  from Cons.IH [OF this] batch_step_state [OF Cons.prems(1), of m] show ?case by simp
qed

lemma session_run_state:
  "reachable df st \<Longrightarrow> list_all event_ok es \<Longrightarrow>
     coherent df (session_run df es st) \<and> settled (session_run df es st)"
  using session_run_reachable reachable_invariant by blast

section \<open>Properties of batched messages\<close>

text \<open>
  C16. Applying the writes of a message together and flushing once shows, in every
  placeholder, the same as processing them one by one with a flush after each, and leaves
  the same inputs: batching changes the work done, never what is displayed.
\<close>

theorem batch_displays_as_sequential:
  assumes "reachable df st" and "list_all event_ok es"
  shows "out_cache (batch_step df es st) = out_cache (session_run df es st)
       \<and> sess_inputs (batch_step df es st) = sess_inputs (session_run df es st)"
proof -
  have c: "coherent df st" using reachable_invariant [OF assms(1)] by simp
  have i: "sess_inputs (batch_step df es st) = sess_inputs (session_run df es st)"
    using batch_step_state [OF c] session_run_inputs [OF assms] by simp
  have b: "coherent df (batch_step df es st)" "settled (batch_step df es st)"
    using batch_step_state [OF c] by simp_all
  have s: "coherent df (session_run df es st)" "settled (session_run df es st)"
    using session_run_state [OF assms] by simp_all
  have "out_cache (batch_step df es st) oi = out_cache (session_run df es st) oi" for oi
    using settled_out_cache [OF b, of oi] settled_out_cache [OF s, of oi] i by simp
  with i show ?thesis by auto
qed

theorem batch_displays_as_sequential_witness:
  "out_cache (batch_step (load_penguins [sample_penguin ''Gentoo'']) [SetSpecies [], SetSpecies [''Gentoo'']]
       (start_session (load_penguins [sample_penguin ''Gentoo''])))
   = out_cache (session_run (load_penguins [sample_penguin ''Gentoo'']) [SetSpecies [], SetSpecies [''Gentoo'']]
       (start_session (load_penguins [sample_penguin ''Gentoo''])))"
proof -
  have "list_all event_ok [SetSpecies [], SetSpecies [''Gentoo'']]" by (simp add: event_ok_iff)
  from batch_displays_as_sequential [OF reachable.start this] show ?thesis by simp
qed

text \<open>
  C17. A batch does each piece of work at most once: whatever the writes of the message,
  even several writes of the same input, the executions it adds to the log are distinct, so
  the calculation runs at most once and each output at most once per message.
\<close>

theorem batch_executes_at_most_once:
  assumes "reachable df st"
  shows "distinct (drop (length (exec_log st)) (exec_log (batch_step df es st)))"
proof -
  have c: "coherent df st" using reachable_invariant [OF assms] by simp
  show ?thesis using batch_step_log [OF c, of es] by (auto simp: distinct_map inj_on_def)
qed

theorem batch_executes_at_most_once_witness:
  "distinct (drop (length (exec_log (start_session (load_penguins [sample_penguin ''Gentoo'']))))
     (exec_log (batch_step (load_penguins [sample_penguin ''Gentoo''])
        [SetSpecies [], SetSeabornBins 3, SetSpecies [''Gentoo''], SetSeabornBins 7]
        (start_session (load_penguins [sample_penguin ''Gentoo''])))))"
  using batch_executes_at_most_once [OF reachable.start] by simp

end
