(* ===== verification/Server.thy ===== *)
theory Server
  imports Batch
begin

text \<open>
  The application object \<^verbatim>\<open>app = App(app_ui, server)\<close> (\<^verbatim>\<open>src/app.py\<close>, line
  119) serves many browser sessions at once: each connection runs \<^verbatim>\<open>server()\<close> anew,
  which gives the session its own inputs, its own calculation and its own outputs, over the
  one frame loaded at import. The server state is the list of the sessions opened so far,
  numbered in the order they connected. A message is Shiny's \<^verbatim>\<open>update\<close> message: it
  carries the number of its session and the input writes the client batched, which the
  session applies before it flushes once (\<open>batch_step\<close> of \<open>Batch\<close>); a single change is
  a message of one write, and a message for a session that does not exist is dropped.
  Isolation is the framework's contract (specification, section 5), and this model has it
  by construction: each session is its own entry of the list, so \<open>server_run_nth\<close> (each
  session is the run of its own messages) is bookkeeping. The property proved here is what
  a session then shows: the dashboard of the inputs that all the writes of its own messages
  produced, whatever the other sessions receive and however the messages interleave.
\<close>

datatype server_event = Connect | Message nat "ui_event list"

fun server_step :: "frame \<Rightarrow> session list \<Rightarrow> server_event \<Rightarrow> session list" where
  "server_step df ss Connect = ss @ [start_session df]"
| "server_step df ss (Message k es) =
     (if k < length ss then ss[k := batch_step df es (ss ! k)] else ss)"

definition server_run :: "frame \<Rightarrow> server_event list \<Rightarrow> session list \<Rightarrow> session list" where
  "server_run df evs ss = foldl (server_step df) ss evs"

text \<open>
  The messages session \<open>k\<close> receives, when \<open>n\<close> sessions are open before the trace: the
  messages addressed to it once it exists.
\<close>

fun session_events :: "nat \<Rightarrow> nat \<Rightarrow> server_event list \<Rightarrow> ui_event list list" where
  "session_events k n [] = []"
| "session_events k n (Connect # evs) = session_events k (Suc n) evs"
| "session_events k n (Message j es # evs) =
     (if j = k \<and> k < n then es # session_events k n evs else session_events k n evs)"

text \<open>A trace of three connections, with a batched message and a message addressed to no
  session, over a frame of two rows.\<close>

definition demo_server_frame :: frame where
  "demo_server_frame = load_penguins [sample_penguin ''Gentoo'', sample_penguin ''Adelie'']"

definition demo_trace :: "server_event list" where
  "demo_trace = [Connect, Connect, Message 1 [SetSpecies [], SetSeabornBins 20], Message 0 [SetSeabornBins 3],
                 Message 7 [SetSpecies [''Adelie'']], Connect, Message 1 [SetAttribute ''body_mass_g'']]"

section \<open>Lemmas\<close>

lemma length_server_run:
  "length (server_run df evs ss) = length ss + length (filter (\<lambda>ev. ev = Connect) evs)"
proof (induction evs arbitrary: ss)
  case Nil
  then show ?case by (simp add: server_run_def)
next
  case (Cons ev evs)
  then show ?case by (cases ev) (simp_all add: server_run_def)
qed

text \<open>Each session is the run of its own messages from its own start.\<close>

lemma server_run_nth:
  assumes "k < length (server_run df evs ss)"
  shows "server_run df evs ss ! k =
           fold (batch_step df) (session_events k (length ss) evs)
             (if k < length ss then ss ! k else start_session df)"
  using assms
proof (induction evs arbitrary: ss)
  case Nil
  then show ?case by (simp add: server_run_def)
next
  case (Cons ev evs)
  show ?case
  proof (cases ev)
    case Connect
    have "k < length (server_run df evs (ss @ [start_session df]))"
      using Cons.prems Connect by (simp add: server_run_def)
    from Cons.IH [OF this] Connect show ?thesis
      by (simp add: server_run_def nth_append)
  next
    case (Message j es)
    let ?ss' = "server_step df ss (Message j es)"
    have len: "length ?ss' = length ss" by simp
    have "k < length (server_run df evs ?ss')"
      using Cons.prems Message by (simp add: server_run_def)
    from Cons.IH [OF this] Message len show ?thesis
      by (auto simp: server_run_def nth_list_update)
  qed
qed

lemma start_session_state: "coherent df (start_session df) \<and> settled (start_session df)"
  using reachable_invariant [OF reachable.start] by simp

section \<open>Properties of the server\<close>

text \<open>
  C12. Each session of the server shows, in every placeholder, the dashboard of the inputs
  its own messages produced, all their writes in order, over the one shared frame.
\<close>

theorem server_session_displays:
  assumes "k < length (server_run df evs [])"
  shows "out_cache (server_run df evs [] ! k) oi =
           Some (output_value df (foldl apply_event initial_inputs (concat (session_events k 0 evs))) oi)"
proof -
  let ?st = "server_run df evs [] ! k"
  have st: "?st = fold (batch_step df) (session_events k 0 evs) (start_session df)"
    using server_run_nth [OF assms] by simp
  have "coherent df ?st" "settled ?st"
    and i: "sess_inputs ?st = foldl apply_event initial_inputs (concat (session_events k 0 evs))"
    using fold_batch_step_state [OF start_session_state [THEN conjunct1] start_session_state [THEN conjunct2]]
    by (simp_all add: st sess_inputs_start)
  from settled_out_cache [OF this(1,2)] i show ?thesis by simp
qed

theorem server_session_displays_witness:
  "out_cache (server_run demo_server_frame demo_trace [] ! 1) SeabornHistogram =
     Some (output_value demo_server_frame
       (initial_inputs\<lparr>selected_species_list := [], seaborn_bin_count := 20, selected_attribute := ''body_mass_g''\<rparr>)
       SeabornHistogram)"
proof -
  have "1 < length (server_run demo_server_frame demo_trace [])"
    by (simp add: demo_trace_def length_server_run)
  from server_session_displays [OF this] show ?thesis by (simp add: demo_trace_def)
qed

end
