(* ===== verification/Dependencies.thy ===== *)
theory Dependencies
  imports Reactive
begin

text \<open>
  Shiny does not take read sets from a declaration: while a calculation or an output runs,
  every \<^verbatim>\<open>input.x()\<close> and every call of a calculation registers the running context
  as a dependent of what it read. This theory writes the bodies of \<^verbatim>\<open>server()\<close>
  (\<^verbatim>\<open>src/app.py\<close>, lines 45--104) statement by statement in a reader that records
  its reads: \<open>'a rx\<close> reads the session's inputs and the calculation's current value and
  returns the sources read, in order, with the result. The lemmas \<open>output_body_apply\<close>
  and \<open>filtered_data_body_apply\<close> evaluate the bodies on every path (the error paths
  included, since every read comes before the first statement that can raise): the reads
  are the read sets \<open>calc_reads\<close> and \<open>output_reads\<close> and the values those of
  \<open>Render\<close>. \<open>Dynamic_Scheduler\<close> runs these bodies in a scheduler that invalidates
  along the recorded reads.
\<close>

type_synonym 'a rx = "inputs \<times> frame result \<Rightarrow> source list \<times> 'a"

named_theorems rx_simps "evaluation rules of the recording reader"

definition rx_return :: "'a \<Rightarrow> 'a rx" where
  "rx_return a = (\<lambda>_. ([], a))"

definition rx_bind :: "'a rx \<Rightarrow> ('a \<Rightarrow> 'b rx) \<Rightarrow> 'b rx" where
  "rx_bind m f = (\<lambda>c. let (r1, a) = m c; (r2, b) = f a c in (r1 @ r2, b))"

text \<open>The reads: an input by its accessor, and a call of the calculation.\<close>

definition rx_selected_attribute :: "string rx" where
  "rx_selected_attribute = (\<lambda>(inp, fd). ([In SelectedAttribute], selected_attribute inp))"

definition rx_plotly_bin_count :: "real option rx" where
  "rx_plotly_bin_count = (\<lambda>(inp, fd). ([In PlotlyBinCount], plotly_bin_count inp))"

definition rx_seaborn_bin_count :: "int rx" where
  "rx_seaborn_bin_count = (\<lambda>(inp, fd). ([In SeabornBinCount], seaborn_bin_count inp))"

definition rx_selected_species_list :: "string list rx" where
  "rx_selected_species_list = (\<lambda>(inp, fd). ([In SelectedSpeciesList], selected_species_list inp))"

definition rx_filtered_data :: "frame result rx" where
  "rx_filtered_data = (\<lambda>(inp, fd). ([CalcFilteredData], fd))"

section \<open>The bodies\<close>

definition filtered_data_body :: "frame \<Rightarrow> frame result rx" where
  "filtered_data_body df = rx_bind rx_selected_species_list (\<lambda>sel. rx_return (filtered_data df sel))"

definition data_table_body :: "artifact result rx" where
  "data_table_body = rx_bind rx_filtered_data (\<lambda>fd. rx_return (rbind fd (\<lambda>d. Inr (TableView d))))"

definition data_grid_body :: "artifact result rx" where
  "data_grid_body = rx_bind rx_filtered_data (\<lambda>fd. rx_return (rbind fd (\<lambda>d. Inr (TableView d))))"

definition plotly_histogram_body :: "artifact result rx" where
  "plotly_histogram_body =
     rx_bind rx_selected_attribute (\<lambda>col.
     rx_bind rx_plotly_bin_count (\<lambda>bins.
     rx_bind rx_filtered_data (\<lambda>fd.
     rx_return (rbind fd (\<lambda>d. rbind (py_int bins) (\<lambda>n.
       Inr (PlotlyHistogramFig d col n ''species'' (''Plotly Histogram of '' @ col))))))))"

definition seaborn_histogram_body :: "artifact result rx" where
  "seaborn_histogram_body =
     rx_bind rx_selected_attribute (\<lambda>col.
     rx_bind rx_seaborn_bin_count (\<lambda>bins.
     rx_bind rx_filtered_data (\<lambda>fd.
     rx_return (rbind fd (\<lambda>d.
       Inr (SeabornHistogramFig d col bins ''species'' (''Seaborn Histogram of '' @ col)))))))"

definition plotly_scatterplot_body :: "artifact result rx" where
  "plotly_scatterplot_body =
     rx_bind rx_filtered_data (\<lambda>fd.
     rx_return (rbind fd (\<lambda>d. Inr (PlotlyScatterFig d ''bill_depth_mm'' ''bill_length_mm'' ''species''
       ''species'' scatter_labels ''Bill Depth vs. Bill Length by Penguin Species''))))"

fun output_body :: "output_id \<Rightarrow> artifact result rx" where
  "output_body DataTable = data_table_body"
| "output_body DataGrid = data_grid_body"
| "output_body PlotlyHistogram = plotly_histogram_body"
| "output_body SeabornHistogram = seaborn_histogram_body"
| "output_body PlotlyScatterplot = plotly_scatterplot_body"

section \<open>Lemmas\<close>

lemma rx_return_apply [simp, rx_simps]: "rx_return a c = ([], a)"
  by (simp add: rx_return_def)

lemma rx_bind_apply [simp, rx_simps]:
  "rx_bind m f c = (fst (m c) @ fst (f (snd (m c)) c), snd (f (snd (m c)) c))"
  by (simp add: rx_bind_def split: prod.splits)

lemmas rx_reads [rx_simps] = rx_selected_attribute_def rx_plotly_bin_count_def rx_seaborn_bin_count_def
  rx_selected_species_list_def rx_filtered_data_def

lemma output_body_apply:
  "output_body oi (inp, fd) = (output_reads oi, run_output inp fd oi)"
  by (cases oi)
     (simp_all add: rx_simps data_table_body_def data_grid_body_def plotly_histogram_body_def
        seaborn_histogram_body_def plotly_scatterplot_body_def data_table_def data_grid_def
        plotly_histogram_def seaborn_histogram_def plotly_scatterplot_def Let_def)

lemma filtered_data_body_apply:
  "filtered_data_body df (inp, fd) = (calc_reads, calc_value df inp)"
  by (simp add: rx_simps filtered_data_body_def calc_reads_def calc_value_def)

section \<open>The recorded reads\<close>

end
