(* ===== verification/Dynamic_Scheduler.thy ===== *)
theory Dynamic_Scheduler
  imports Dependencies
begin

text \<open>
  The Reactive Scheduler as Shiny runs it. Shiny keeps no declared read sets: each
  execution of a calculation or an output runs in a context that records what the body read
  (\<open>Dependencies\<close>), and a write to an input invalidates exactly the contexts whose
  last execution recorded that input; an invalidated calculation invalidates the contexts
  that recorded a call of it. Here each cache holds the value together with the reads
  recorded by the execution that produced it, the bodies are those of \<open>Dependencies\<close>
  run over the session's inputs, and invalidation follows the recorded reads. The
  abstraction \<open>ds_abs\<close> forgets the recorded reads; the lemmas show that every operation
  commutes with it, so the scheduler of \<open>Reactive\<close>, which invalidates along the static
  read sets, is this one seen through \<open>ds_abs\<close>.

  Every body of \<^verbatim>\<open>server()\<close> calls \<^verbatim>\<open>filtered_data()\<close>, so the calculation is
  fetched (from its cache, or executed) before the output's body runs; the calculation's
  own body calls no calculation, and the second component of its context is never read.
\<close>

record dsession =
  ds_inputs :: inputs
  ds_calc :: "(frame result \<times> source list) option"
  ds_out :: "output_id \<Rightarrow> (artifact result \<times> source list) option"
  ds_log :: "exec list"

definition ds_get_calc :: "frame \<Rightarrow> dsession \<Rightarrow> frame result \<times> dsession" where
  "ds_get_calc df st =
     (case ds_calc st of
        Some (v, rs) \<Rightarrow> (v, st)
      | None \<Rightarrow>
          (let (rs, v) = filtered_data_body df (ds_inputs st, Inr [])
           in (v, st\<lparr>ds_calc := Some (v, rs), ds_log := ds_log st @ [ExecCalc]\<rparr>)))"

definition ds_exec_output :: "frame \<Rightarrow> output_id \<Rightarrow> dsession \<Rightarrow> dsession" where
  "ds_exec_output df oi st =
     (let (fd, st1) = ds_get_calc df st;
          (rs, v) = output_body oi (ds_inputs st1, fd)
      in st1\<lparr>ds_out := (ds_out st1)(oi := Some (v, rs)), ds_log := ds_log st1 @ [ExecOutput oi]\<rparr>)"

fun ds_flush_list :: "frame \<Rightarrow> output_id list \<Rightarrow> dsession \<Rightarrow> dsession" where
  "ds_flush_list df [] st = st"
| "ds_flush_list df (oi # os) st =
     ds_flush_list df os (if ds_out st oi = None then ds_exec_output df oi st else st)"

definition ds_flush :: "frame \<Rightarrow> dsession \<Rightarrow> dsession" where
  "ds_flush df st = ds_flush_list df server_outputs st"

text \<open>Whether the last execution cached in a context recorded a read of the source.\<close>

definition read_dep :: "source \<Rightarrow> ('a \<times> source list) option \<Rightarrow> bool" where
  "read_dep s c = (case c of None \<Rightarrow> False | Some (v, rs) \<Rightarrow> s \<in> set rs)"

definition ds_invalidate_calc :: "dsession \<Rightarrow> dsession" where
  "ds_invalidate_calc st =
     (if ds_calc st = None then st
      else st\<lparr>ds_calc := None,
              ds_out := (\<lambda>oi. if read_dep CalcFilteredData (ds_out st oi) then None else ds_out st oi)\<rparr>)"

definition ds_invalidate_input :: "input_id \<Rightarrow> dsession \<Rightarrow> dsession" where
  "ds_invalidate_input i st =
     (let st1 = (if read_dep (In i) (ds_calc st) then ds_invalidate_calc st else st)
      in st1\<lparr>ds_out := (\<lambda>oi. if read_dep (In i) (ds_out st1 oi) then None else ds_out st1 oi)\<rparr>)"

definition ds_write_input :: "ui_event \<Rightarrow> dsession \<Rightarrow> dsession" where
  "ds_write_input e st =
     (if read_input (ds_inputs st) (event_input e) = event_value e then st
      else ds_invalidate_input (event_input e) (st\<lparr>ds_inputs := apply_event (ds_inputs st) e\<rparr>))"

definition ds_step :: "frame \<Rightarrow> ui_event \<Rightarrow> dsession \<Rightarrow> dsession" where
  "ds_step df e st = ds_flush df (ds_write_input e st)"

definition ds_initial :: dsession where
  "ds_initial = \<lparr>ds_inputs = initial_inputs, ds_calc = None, ds_out = (\<lambda>_. None), ds_log = []\<rparr>"

definition ds_start :: "frame \<Rightarrow> dsession" where
  "ds_start df = ds_flush df ds_initial"

fun ds_run :: "frame \<Rightarrow> ui_event list \<Rightarrow> dsession \<Rightarrow> dsession" where
  "ds_run df [] st = st"
| "ds_run df (e # es) st = ds_run df es (ds_step df e st)"

text \<open>The abstraction to the session of \<open>Reactive\<close>, and the invariant that the reads
  recorded in every cache are the read set of its body.\<close>

definition ds_abs :: "dsession \<Rightarrow> session" where
  "ds_abs st =
     \<lparr>sess_inputs = ds_inputs st, calc_cache = map_option fst (ds_calc st),
      out_cache = (\<lambda>oi. map_option fst (ds_out st oi)), exec_log = ds_log st\<rparr>"

definition deps_recorded :: "dsession \<Rightarrow> bool" where
  "deps_recorded st \<longleftrightarrow>
     (case ds_calc st of None \<Rightarrow> True | Some (v, rs) \<Rightarrow> rs = calc_reads)
   \<and> list_all (\<lambda>oi. case ds_out st oi of None \<Rightarrow> True | Some (v, rs) \<Rightarrow> rs = output_reads oi)
       server_outputs"

section \<open>Lemmas\<close>

lemma deps_recorded_iff:
  "deps_recorded st \<longleftrightarrow>
     (\<forall>v rs. ds_calc st = Some (v, rs) \<longrightarrow> rs = calc_reads)
   \<and> (\<forall>oi v rs. ds_out st oi = Some (v, rs) \<longrightarrow> rs = output_reads oi)"
  by (auto simp: deps_recorded_def list_all_iff split: option.splits)

lemma ds_abs_get_calc:
  assumes "deps_recorded st"
  shows "get_calc df (ds_abs st) = map_prod id ds_abs (ds_get_calc df st)
       \<and> deps_recorded (snd (ds_get_calc df st))"
  using assms
  by (auto simp: get_calc_def ds_get_calc_def ds_abs_def filtered_data_body_apply calc_value_def
      deps_recorded_iff Let_def split: option.splits)

lemma ds_abs_exec_output:
  assumes "deps_recorded st"
  shows "ds_abs (ds_exec_output df oi st) = exec_output df oi (ds_abs st)
       \<and> deps_recorded (ds_exec_output df oi st)"
proof -
  obtain fd st1 where g: "ds_get_calc df st = (fd, st1)" by fastforce
  from ds_abs_get_calc [OF assms, of df] g
  have a: "get_calc df (ds_abs st) = (fd, ds_abs st1)" and d: "deps_recorded st1" by simp_all
  show ?thesis
    using d by (simp add: ds_exec_output_def exec_output_def g a output_body_apply)
               (auto simp: ds_abs_def deps_recorded_iff)
qed

lemma ds_abs_flush_list:
  "deps_recorded st \<Longrightarrow>
     ds_abs (ds_flush_list df os st) = flush_list df os (ds_abs st) \<and> deps_recorded (ds_flush_list df os st)"
proof (induction os arbitrary: st)
  case Nil
  then show ?case by simp
next
  case (Cons oi os)
  have none: "(out_cache (ds_abs st) oi = None) = (ds_out st oi = None)" by (simp add: ds_abs_def)
  show ?case
  proof (cases "ds_out st oi = None")
    case True
    then show ?thesis using Cons.IH [of "ds_exec_output df oi st"] ds_abs_exec_output [OF Cons.prems]
      by (simp add: none)
  next
    case False
    then have "ds_flush_list df (oi # os) st = ds_flush_list df os st"
      and "flush_list df (oi # os) (ds_abs st) = flush_list df os (ds_abs st)"
      by (simp_all only: ds_flush_list.simps flush_list.simps none if_False)
    then show ?thesis using Cons.IH [OF Cons.prems] by (simp only:)
  qed
qed

lemma ds_abs_flush:
  "deps_recorded st \<Longrightarrow> ds_abs (ds_flush df st) = flush df (ds_abs st) \<and> deps_recorded (ds_flush df st)"
  unfolding ds_flush_def flush_def by (rule ds_abs_flush_list)

lemma deps_recorded_outD: "deps_recorded st \<Longrightarrow> ds_out st oi = Some (v, rs) \<Longrightarrow> rs = output_reads oi"
  by (simp add: deps_recorded_iff)

lemma deps_recorded_calcD: "deps_recorded st \<Longrightarrow> ds_calc st = Some (v, rs) \<Longrightarrow> rs = calc_reads"
  by (simp add: deps_recorded_iff)

lemma ds_abs_invalidate_input:
  assumes "deps_recorded st"
  shows "ds_abs (ds_invalidate_input i st) = invalidate_input i (ds_abs st)
       \<and> deps_recorded (ds_invalidate_input i st)"
proof
  show "ds_abs (ds_invalidate_input i st) = invalidate_input i (ds_abs st)"
    using deps_recorded_calcD [OF assms]
    by (auto simp: ds_invalidate_input_def invalidate_input_def ds_invalidate_calc_def invalidate_calc_def
        ds_abs_def read_dep_def Let_def fun_eq_iff split: option.splits dest: deps_recorded_outD [OF assms])
  show "deps_recorded (ds_invalidate_input i st)"
    using assms
    by (auto simp: ds_invalidate_input_def ds_invalidate_calc_def deps_recorded_iff Let_def)
qed

lemma ds_abs_write_input:
  assumes "deps_recorded st"
  shows "ds_abs (ds_write_input e st) = write_input e (ds_abs st) \<and> deps_recorded (ds_write_input e st)"
proof -
  let ?st1 = "st\<lparr>ds_inputs := apply_event (ds_inputs st) e\<rparr>"
  have d: "deps_recorded ?st1" and a: "ds_abs ?st1 = (ds_abs st)\<lparr>sess_inputs := apply_event (ds_inputs st) e\<rparr>"
    using assms by (simp_all add: deps_recorded_def ds_abs_def)
  show ?thesis
    using assms ds_abs_invalidate_input [OF d, of "event_input e"]
    by (simp add: ds_write_input_def write_input_def a) (simp add: ds_abs_def)
qed

lemma ds_abs_step:
  "deps_recorded st \<Longrightarrow> ds_abs (ds_step df e st) = session_step df e (ds_abs st) \<and> deps_recorded (ds_step df e st)"
  using ds_abs_write_input ds_abs_flush by (simp add: ds_step_def session_step_def)

lemma ds_abs_start: "ds_abs (ds_start df) = start_session df \<and> deps_recorded (ds_start df)"
proof -
  have "deps_recorded ds_initial" "ds_abs ds_initial = initial_session"
    by (simp_all add: deps_recorded_def ds_initial_def ds_abs_def initial_session_def list_all_iff)
  then show ?thesis using ds_abs_flush [of ds_initial df] by (simp add: ds_start_def start_session_def)
qed

lemma ds_abs_run:
  "deps_recorded st \<Longrightarrow> ds_abs (ds_run df es st) = session_run df es (ds_abs st) \<and> deps_recorded (ds_run df es st)"
  by (induction es arbitrary: st) (simp_all add: ds_abs_step)

lemma ds_run_from_start:
  "ds_abs (ds_run df es (ds_start df)) = session_run df es (start_session df)
   \<and> deps_recorded (ds_run df es (ds_start df))"
  using ds_abs_run [OF conjunct2 [OF ds_abs_start]] ds_abs_start by simp

lemma map_option_fst_recorded:
  "map_option fst c = Some v \<Longrightarrow> (\<And>v' rs. c = Some (v', rs) \<Longrightarrow> rs = xs) \<Longrightarrow> c = Some (v, xs)"
  by (cases c) auto

section \<open>Properties of the dynamic scheduler\<close>

text \<open>
  C14. The scheduler that invalidates along the reads each execution recorded is refined
  exactly by the scheduler of \<open>Reactive\<close> with its static read sets: from the start of a
  session, over any sequence of events, forgetting the recorded reads gives the same inputs,
  caches and log of executions.
\<close>

theorem ds_run_refines_session_run:
  "ds_abs (ds_run df es (ds_start df)) = session_run df es (start_session df)"
  using ds_run_from_start by simp

text \<open>
  C15. After any sequence of events the widgets can send, every output of the dynamic
  scheduler holds the dashboard's value for the current inputs together with the reads of
  its body, and the calculation holds the filtered view with the read of the species input.
\<close>

theorem ds_run_displays_recorded:
  assumes "list_all event_ok es"
  shows "ds_out (ds_run df es (ds_start df)) oi =
           Some (output_value df (foldl apply_event initial_inputs es) oi, output_reads oi)
       \<and> ds_calc (ds_run df es (ds_start df)) =
           Some (calc_value df (foldl apply_event initial_inputs es), calc_reads)"
proof -
  let ?st = "ds_run df es (ds_start df)" and ?inp = "foldl apply_event initial_inputs es"
  have a: "ds_abs ?st = session_run df es (start_session df)" and d: "deps_recorded ?st"
    using ds_run_from_start by simp_all
  have r: "reachable df (ds_abs ?st)" using session_run_reachable [OF reachable.start assms] a by simp
  have "sess_inputs (ds_abs ?st) = ?inp"
    using session_run_inputs [OF reachable.start assms] a by (simp add: sess_inputs_start)
  then have i: "ds_inputs ?st = ?inp" by (simp add: ds_abs_def)
  have "map_option fst (ds_out ?st oi) = Some (output_value df ?inp oi)"
    using reachable_out_cache [OF r, of oi] i by (simp add: ds_abs_def)
  then have o: "ds_out ?st oi = Some (output_value df ?inp oi, output_reads oi)"
    using deps_recorded_outD [OF d] by (rule map_option_fst_recorded)
  from reachable_invariant [OF r] have c: "coherent df (ds_abs ?st)" and "settled (ds_abs ?st)" by simp_all
  then have "calc_cache (ds_abs ?st) \<noteq> None" by (rule settled_calc_cached)
  then have "map_option fst (ds_calc ?st) = Some (calc_value df ?inp)"
    using c i by (auto simp: coherent_iff ds_abs_def)
  then have "ds_calc ?st = Some (calc_value df ?inp, calc_reads)"
    using deps_recorded_calcD [OF d] by (rule map_option_fst_recorded)
  with o show ?thesis by simp
qed

theorem ds_run_displays_recorded_witness:
  "ds_out (ds_run (load_penguins [sample_penguin ''Gentoo'']) [SetSpecies [''Gentoo'']]
             (ds_start (load_penguins [sample_penguin ''Gentoo'']))) DataTable =
     Some (output_value (load_penguins [sample_penguin ''Gentoo''])
             (initial_inputs\<lparr>selected_species_list := [''Gentoo'']\<rparr>) DataTable, [CalcFilteredData])
   \<and> ds_calc (ds_run (load_penguins [sample_penguin ''Gentoo'']) [SetSpecies [''Gentoo'']]
             (ds_start (load_penguins [sample_penguin ''Gentoo'']))) =
     Some (calc_value (load_penguins [sample_penguin ''Gentoo''])
             (initial_inputs\<lparr>selected_species_list := [''Gentoo'']\<rparr>), [In SelectedSpeciesList])"
proof -
  have "list_all event_ok [SetSpecies [''Gentoo'']]" by (simp add: event_ok_iff)
  from ds_run_displays_recorded [OF this, of "load_penguins [sample_penguin ''Gentoo'']" DataTable]
  show ?thesis by (simp add: calc_reads_def)
qed

end
