(* ===== verification/Spec2Isabelle.thy ===== *)
theory Spec2Isabelle
  imports Flush_Loop Server Dynamic_Scheduler Batch
begin

text \<open>
  \<^bold>\<open>A verification development of the penguin dashboard\<close> (\<^verbatim>\<open>src/app.py\<close>, a
  Shiny for Python application of 119 lines).

  \<^bold>\<open>The program.\<close> At import the module loads the Palmer penguins table
  (\<^verbatim>\<open>penguins_df = load_penguins()\<close>, line 9) and declares the page
  \<^verbatim>\<open>app_ui\<close> (lines 12--39): an attribute selector, a numeric Plotly bin count, a
  Seaborn bin slider, a species checkbox group, and five output placeholders. For each
  browser session, \<^verbatim>\<open>server()\<close> (lines 42--104) builds a reactive graph: one cached
  calculation \<^verbatim>\<open>filtered_data\<close> (the rows of the selected species) and five outputs
  (two tables, a Plotly and a Seaborn histogram of the selected column, and a scatterplot of
  bill depth against bill length). Shiny's scheduler re-executes an output when an input or
  the calculation it read changes. Two more data-frame renderers are defined at module level
  (lines 105--117), outside the page and outside \<^verbatim>\<open>server()\<close>. The application
  object \<^verbatim>\<open>App(app_ui, server)\<close> (lines 118--119) runs one server session per
  connected browser over the one shared frame.

  \<^bold>\<open>Theories and correspondence.\<close>
  \<^item> \<open>Prelude\<close>: Python exceptions as values (\<open>py_error\<close>, \<open>'a result\<close>,
    \<open>Inl\<close> the exception), the sequencing \<open>rbind\<close> of statements that may raise,
    Python's \<^verbatim>\<open>int()\<close> on a number (\<open>py_int\<close>, truncation towards zero), and list
    lemmas shared by the components.
  \<^item> \<open>Penguins\<close> (Dataset Provider, line 9): a row is the record \<open>penguin\<close> with the
    package's eight columns, missing measurements \<open>None\<close>; a frame is a list of (row
    label, row) pairs, \<open>load_penguins\<close> labels the rows \<open>0, 1, \<dots>\<close> like pandas'
    RangeIndex. The loader belongs to \<^verbatim>\<open>palmerpenguins\<close>: the rows themselves are a
    parameter of every theorem, so the theorems hold for any content of the table.
  \<^item> \<open>Species_Filter\<close> (Filter Stage, lines 45--47): \<open>isin\<close> is
    \<^verbatim>\<open>Series.isin\<close>, \<open>mask_select\<close> is pandas' boolean indexing
    (\<^verbatim>\<open>_getitem_bool_array\<close> with \<^verbatim>\<open>check_bool_indexer\<close>: a mask with the
    frame's index is the key as it is, another mask is aligned to the frame's labels or
    raises \<^verbatim>\<open>IndexingError\<close>, then the rows at the true positions are taken),
    \<open>filtered_data\<close> composes them; claims C2 and C18--C23. Line 47 builds the mask from
    the frame itself, so only the first path is reached, and no claim is made of the others.
  \<^item> \<open>App_Ui\<close> (UI Shell, lines 12--39): \<open>app_ui\<close> is the page as a tree of tags,
    and \<open>module_layout\<close> the card layout declared at module level (lines 105--117);
    \<open>input_defaults\<close>, \<open>input_ids\<close>, \<open>output_ids\<close> read it; \<open>widget_accepts\<close>
    is what each widget can deliver (Shiny's widget contract); the record \<open>inputs\<close> is the
    session's input state read by \<^verbatim>\<open>input.x()\<close>, written by the events
    \<open>ui_event\<close> through \<open>apply_event\<close>.
  \<^item> \<open>Render\<close> (Render Stage, lines 49--117): one definition per output function,
    returning the artifact it hands to the library (the library call with its arguments) or
    the exception raised first, in Python's order of argument evaluation;
    \<open>penguins_datatable\<close> and \<open>penguins_datagrid\<close> look \<^verbatim>\<open>filtered_data\<close> up in
    the module's globals.
  \<^item> \<open>Reactive\<close> (Reactive Scheduler, lines 42--104 for the graph): the read set of the
    calculation (\<open>calc_reads\<close>) and of each output (\<open>output_reads\<close>) as the code reads
    them, the pure dashboard \<open>output_value\<close> (the abstract specification: each output a
    function of the filtered view and its own inputs), and the session state
    \<open>session\<close> (inputs, the calculation's cache, each output's cache, the log of
    executions) with \<open>write_input\<close>, \<open>invalidate_input\<close>, \<open>flush\<close> and
    \<open>session_step\<close>; the reachable sessions are the inductive \<open>reachable\<close>, from the
    first flush of the start values through any sequence of events the widgets can send.
    Shiny itself is external: its scheduling is modelled from the specification (4.3).
  \<^item> \<open>Dependencies\<close> (Shiny's reactive context over lines 45--104): each body of
    \<^verbatim>\<open>server()\<close> written again over a recording reader (\<open>'a rx\<close>, with
    \<open>rx_return\<close> and \<open>rx_bind\<close>) whose accessors \<open>rx_selected_attribute\<close>, \<dots>,
    \<open>rx_filtered_data\<close> log each read as it happens, as Shiny's context does; the
    lemmas evaluate each body on every branch, errors included.
  \<^item> \<open>Flush_Loop\<close> (Shiny's flush): the flush as the loop Shiny runs,
    \<open>while_option\<close> over a queue \<open>pending_queue\<close> of the invalidated outputs, one
    \<open>flush_body\<close> per iteration; C13.
  \<^item> \<open>Server\<close> (lines 118--119): the application as a list of sessions, a
    \<open>server_event\<close> being a connection or an update message addressed to one session,
    which carries a batch of input writes that the session applies by \<open>batch_step\<close>;
    \<open>server_step\<close>, \<open>server_run\<close>, and the projection \<open>session_events\<close> of a trace
    on one session's messages; C12. Shiny handles one message at a time, the writes and the
    flush of a message without interruption, so a trace (a list) is every interleaving of
    the sessions' messages. Isolation of the sessions is the framework's contract and holds
    by construction of the model (each session its own list entry).
  \<^item> \<open>Dynamic_Scheduler\<close> (Shiny's scheduler over recorded reads): the session
    \<open>dsession\<close> caches each value with the reads its execution recorded, the bodies of
    \<open>Dependencies\<close> run in \<open>ds_get_calc\<close> and \<open>ds_exec_output\<close>, and
    \<open>ds_invalidate_input\<close> and \<open>ds_invalidate_calc\<close> invalidate the contexts that
    recorded the source; \<open>ds_abs\<close> forgets the recorded reads, and every operation
    commutes with it (C14, C15).
  \<^item> \<open>Batch\<close> (Shiny's update message): \<open>batch_step\<close> sets every input value of a
    message, then flushes once (C16, C17). The client keeps the last value per input, so a
    message writes each input at most once; the theorems hold for any list of writes.
  \<^item> This theory: the properties that span components, C1 and C3--C11, and two lemmas
    behind findings: the Seaborn histogram can be asked for zero bins in a reachable session
    (\<open>seaborn_zero_bins_reachable\<close>), and the module-level renderers raise
    \<open>NameError\<close> while the placeholders of their cards are not on the page
    (\<open>module_renderers_unbound\<close>).

  \<^bold>\<open>What the lemmas show.\<close> The filter never raises and returns exactly the selected
  species' rows in order with their labels (C2), with the cases of the specification: the
  empty selection (C18), the full selection (C19), the selection as a set (C20), the row
  count (C21), the Gentoo scenario (C22), and unique increasing labels (C23). In every
  reachable session each placeholder shows what the pure dashboard computes from the current
  inputs (C1), and over any sequence of events the final display is the dashboard of the
  final inputs (C5): the scheduler refines \<open>output_value\<close>, by the invariant
  \<open>coherent\<close> (every cached value is current, a cached output implies a cached
  calculation) kept by every write and flush. A change re-executes exactly the transitive
  dependents of the input (C3, C4, C11), invalidation along live edges equals invalidation
  of the transitive dependents (C9), the calculation runs at most once per flush (C10), and
  the read sets are exact: every input an output reads can change what it shows (C8). The
  failure semantics for an empty selection is C6, and C7 shows the branch where it fails
  (a cleared Plotly bin field). The flush loop, from any coherent session, re-executes every
  invalidated output and settles the session (C13). Each session of the server shows the
  dashboard of the inputs its own batched writes produced (C12). Shiny's scheduler, which
  invalidates along the reads each execution recorded, is refined by the one with static
  read sets over every run (C14), and after every run holds the current dashboard with each
  body's reads (C15). A message of several writes flushed once displays what the writes one
  by one would (C16), and runs the calculation and each output at most once (C17).

  \<^bold>\<open>Bounds and termination.\<close> Every recursion is structural (over the tag tree, the
  list of outputs, the rows, the trace of events, the writes of a message), so no fuel is
  needed; the flush loop is a \<open>while_option\<close> over the queue of outputs pending when
  the flush starts, which no execution of this program can grow, so it returns
  \<open>Some\<close> (C13). The reactive graph has depth two (inputs, calculation, outputs), so
  invalidation is written out for that depth. Bin counts are Python integers (\<open>int\<close>);
  the slider bounds the Seaborn count to \<open>[0, 100]\<close>, and 0 reaches
  \<^verbatim>\<open>sns.histplot\<close>.

  \<^bold>\<open>Assumptions.\<close> What each widget can deliver is Shiny's contract as modelled by
  \<open>widget_accepts\<close>: in particular the single selectize of the attribute is taken to
  hold one of its three choices at all times. If the browser can clear it and send an empty
  string, that input value is outside the model, and C6 does not speak about it.

  \<^bold>\<open>Further work.\<close> Both of the following lie in the framework, not in the
  repository. (1) The client side of the numeric input (text to number or
  \<^verbatim>\<open>None\<close>), so that the reachable values of \<open>plotly_bin_count\<close> are derived
  rather than taken as any \<open>real option\<close>. (2) Sessions that disconnect, which would add
  a third kind of server event.

  \<^bold>\<open>Not modelled.\<close> What the plotting and table libraries draw from the artifact (plotly,
  seaborn, matplotlib, Shiny's table and data-frame renderers), beyond the columns they read;
  the HTML that htmltools generates from the tag trees; the lines of \<^verbatim>\<open>src/app.py\<close>
  that are comments or the header \<^verbatim>\<open>def server(input, output, session)\<close>,
  whose body is modelled statement by statement; the priority Shiny gives
  pending outputs (all are equal here, so Shiny runs them in registration order, the order
  the model uses); disconnection of sessions and the transport between
  browser and server; and the dataset's concrete values (a parameter).
\<close>

definition demo_frame :: frame where
  "demo_frame = load_penguins [sample_penguin ''Gentoo'', sample_penguin ''Adelie'']"

definition demo_species_step :: session where
  "demo_species_step = session_step demo_frame (SetSpecies [''Gentoo'']) (start_session demo_frame)"

section \<open>The reactive session\<close>

text \<open>
  C1. In every reachable session, each output placeholder shows exactly what its render
  function computes from the current inputs through the current filtered view: the
  reactive scheduler refines the pure dashboard \<open>output_value\<close>.
\<close>

theorem displayed_outputs_current:
  assumes "reachable df st"
  shows "out_cache st oi = Some (output_value df (sess_inputs st) oi)"
  using assms by (rule reachable_out_cache)

lemma demo_reachable: "reachable demo_frame demo_species_step"
proof -
  have "event_ok (SetSpecies [''Gentoo''])" by (simp add: event_ok_iff)
  then show ?thesis unfolding demo_species_step_def by (rule reachable.step [OF reachable.start])
qed

lemma demo_inputs: "sess_inputs demo_species_step = initial_inputs\<lparr>selected_species_list := [''Gentoo'']\<rparr>"
  by (simp add: demo_species_step_def reachable_sess_inputs_step [OF reachable.start] sess_inputs_start)

theorem displayed_outputs_current_witness:
  "out_cache demo_species_step DataTable = Some (Inr (TableView [(0, sample_penguin ''Gentoo'')]))"
  using displayed_outputs_current [OF demo_reachable, of DataTable]
  by (simp add: demo_inputs output_value_simps species_view_def demo_frame_def load_penguins_def
      sample_penguin_def initial_inputs_def)

text \<open>
  C3. A change of one input re-executes exactly its transitive dependents, in registration
  order: the calculation first if it read the input, then every output that read the input
  directly or through the calculation, and nothing else.
\<close>

theorem session_step_recomputes_dependents:
  assumes "reachable df st" and "read_input (sess_inputs st) (event_input e) \<noteq> event_value e"
  shows "exec_log (session_step df e st) =
           exec_log st @ (if event_input e \<in> set calc_inputs then [ExecCalc] else [])
           @ map ExecOutput (filter (\<lambda>oi. event_input e \<in> set (output_inputs oi)) server_outputs)"
  using reachable_invariant [OF assms(1)] assms(2) by (simp add: session_step_exec_log)

theorem session_step_recomputes_dependents_witness:
  "exec_log demo_species_step =
     exec_log (start_session demo_frame) @ [ExecCalc, ExecOutput DataTable, ExecOutput DataGrid,
       ExecOutput PlotlyHistogram, ExecOutput SeabornHistogram, ExecOutput PlotlyScatterplot]"
proof -
  have "read_input (sess_inputs (start_session demo_frame)) (event_input (SetSpecies [''Gentoo'']))
        \<noteq> event_value (SetSpecies [''Gentoo''])"
    by (simp add: sess_inputs_start initial_inputs_def)
  from session_step_recomputes_dependents [OF reachable.start this] show ?thesis
    by (simp add: demo_species_step_def calc_inputs_eq output_inputs_def server_outputs_def)
qed

text \<open>
  C4. Writing a bin count re-executes only its own histogram: the tables, the scatterplot,
  the other histogram and the calculation are not re-executed, and an unchanged bin count
  re-executes nothing.
\<close>

theorem bin_count_change_spares_tables:
  assumes "reachable df st"
  shows "exec_log (session_step df (SetSeabornBins b) st) =
           exec_log st @ (if seaborn_bin_count (sess_inputs st) = b then [] else [ExecOutput SeabornHistogram])
       \<and> exec_log (session_step df (SetPlotlyBins p) st) =
           exec_log st @ (if plotly_bin_count (sess_inputs st) = p then [] else [ExecOutput PlotlyHistogram])"
  using reachable_invariant [OF assms]
  by (simp add: session_step_exec_log_cases calc_inputs_eq output_inputs_def server_outputs_def)

theorem bin_count_change_spares_tables_witness:
  "exec_log (session_step demo_frame (SetSeabornBins 7) demo_species_step) =
     exec_log demo_species_step @ [ExecOutput SeabornHistogram]
   \<and> exec_log (session_step demo_frame (SetPlotlyBins (Some 50)) demo_species_step) = exec_log demo_species_step"
  using bin_count_change_spares_tables [OF demo_reachable, of 7 "Some 50"]
  by (simp add: demo_inputs initial_inputs_def)

text \<open>
  C6. When every species is deselected, every output still shows a well-formed artifact
  with no rows, provided the Plotly bin field is not empty.
\<close>

theorem empty_selection_outputs:
  assumes "reachable df st" and "selected_species_list (sess_inputs st) = []"
    and "plotly_bin_count (sess_inputs st) \<noteq> None"
  shows "\<exists>a. out_cache st oi = Some (Inr a) \<and> artifact_rows a = [] \<and> artifact_ok a"
proof -
  have num: "numeric_column (selected_attribute (sess_inputs st))"
    using reachable_invariant [OF assms(1)] by (simp add: inputs_wf_numeric_attribute)
  have sp: "''species'' \<in> set frame_columns" by (simp add: frame_columns_def)
  show ?thesis
    using reachable_out_cache [OF assms(1), of oi] assms(2,3) num sp
    by (cases oi) (auto simp: output_value_simps species_view_def numeric_column_iff)
qed

theorem empty_selection_outputs_witness:
  "reachable demo_frame (session_step demo_frame (SetSpecies []) demo_species_step)
   \<and> (\<exists>a. out_cache (session_step demo_frame (SetSpecies []) demo_species_step) SeabornHistogram = Some (Inr a)
         \<and> artifact_rows a = [] \<and> artifact_ok a)"
proof -
  have ok: "event_ok (SetSpecies [])" by (simp add: event_ok_iff)
  have r: "reachable demo_frame (session_step demo_frame (SetSpecies []) demo_species_step)"
    by (rule reachable.step [OF demo_reachable ok])
  have i: "sess_inputs (session_step demo_frame (SetSpecies []) demo_species_step)
      = initial_inputs\<lparr>selected_species_list := []\<rparr>"
    by (simp add: reachable_sess_inputs_step [OF demo_reachable] demo_inputs)
  show ?thesis using r empty_selection_outputs [OF r, of SeabornHistogram] i
    by (simp add: initial_inputs_def)
qed

text \<open>
  C7. When the Plotly bin field is cleared, the Plotly histogram shows a \<open>TypeError\<close>
  (from \<^verbatim>\<open>int(None)\<close>), whatever the selection; the state is reachable, since the
  numeric input delivers \<^verbatim>\<open>None\<close> for an empty field.
\<close>

theorem plotly_bins_cleared_raises:
  assumes "reachable df st" and "plotly_bin_count (sess_inputs st) = None"
  shows "out_cache st PlotlyHistogram = Some (Inl TypeError)"
  using reachable_out_cache [OF assms(1)] assms(2) by (simp add: output_value_simps)

theorem plotly_bins_cleared_raises_witness:
  "reachable demo_frame (session_step demo_frame (SetPlotlyBins None) demo_species_step)
   \<and> out_cache (session_step demo_frame (SetPlotlyBins None) demo_species_step) PlotlyHistogram = Some (Inl TypeError)"
proof -
  have ok: "event_ok (SetPlotlyBins None)" by (simp add: event_ok_iff)
  have r: "reachable demo_frame (session_step demo_frame (SetPlotlyBins None) demo_species_step)"
    by (rule reachable.step [OF demo_reachable ok])
  have i: "plotly_bin_count (sess_inputs (session_step demo_frame (SetPlotlyBins None) demo_species_step)) = None"
    by (simp add: reachable_sess_inputs_step [OF demo_reachable])
  show ?thesis using r plotly_bins_cleared_raises [OF r i] by simp
qed

text \<open>
  C9. Invalidation along the live edges (an input invalidates the cached consumers that read
  it, and an invalidated calculation passes the invalidation on to its own consumers) is
  the same as invalidating the transitive dependents of the input.
\<close>

theorem invalidation_reaches_dependents:
  assumes "reachable df st"
  shows "invalidate_input i st =
           st\<lparr>calc_cache := (if i \<in> set calc_inputs then None else calc_cache st),
              out_cache := (\<lambda>oi. if i \<in> set (output_inputs oi) then None else out_cache st oi)\<rparr>"
proof -
  have "coherent df st" using reachable_invariant [OF assms] by simp
  then have "\<forall>oi. out_cache st oi \<noteq> None \<longrightarrow> calc_cache st \<noteq> None" by (blast dest: coherent_live)
  then show ?thesis by (rule invalidate_input_closed)
qed

theorem invalidation_reaches_dependents_witness:
  "out_cache (invalidate_input SelectedAttribute demo_species_step) DataTable = out_cache demo_species_step DataTable
   \<and> out_cache (invalidate_input SelectedAttribute demo_species_step) SeabornHistogram = None
   \<and> calc_cache (invalidate_input SelectedAttribute demo_species_step) = calc_cache demo_species_step"
  using invalidation_reaches_dependents [OF demo_reachable, of SelectedAttribute]
  by (simp add: calc_inputs_eq output_inputs_def)

text \<open>
  C10. The calculation is memoised: however many outputs a flush re-executes, it executes
  \<^verbatim>\<open>filtered_data\<close> at most once.
\<close>

theorem flush_calc_at_most_once:
  assumes "coherent df st" and "distinct os"
  shows "count_list (drop (length (exec_log st)) (exec_log (flush_list df os st))) ExecCalc \<le> 1"
proof -
  have "count_list (map ExecOutput xs) ExecCalc = 0" for xs by (induction xs) simp_all
  then show ?thesis by (simp add: flush_list_log [OF assms])
qed

theorem flush_calc_at_most_once_witness:
  "count_list (drop (length (exec_log initial_session)) (exec_log (flush_list demo_frame server_outputs initial_session))) ExecCalc \<le> 1
   \<and> exec_log (flush_list demo_frame server_outputs initial_session) =
       [ExecCalc, ExecOutput DataTable, ExecOutput DataGrid, ExecOutput PlotlyHistogram,
        ExecOutput SeabornHistogram, ExecOutput PlotlyScatterplot]"
proof -
  have d: "distinct server_outputs" by simp
  show ?thesis
    using flush_calc_at_most_once [OF coherent_initial d]
      flush_list_log [OF coherent_initial d, of demo_frame]
    by (auto simp add: initial_session_def server_outputs_def simp del: flush_list.simps)
qed

text \<open>
  C11. The scatterplot declares no dependency on the attribute selector or the bin counts:
  writing any of them never re-executes it, and the scatterplot it shows is unchanged.
\<close>

theorem scatterplot_stable:
  assumes "reachable df st" and "event_input e \<noteq> SelectedSpeciesList"
  shows "ExecOutput PlotlyScatterplot \<notin> set (drop (length (exec_log st)) (exec_log (session_step df e st)))
       \<and> out_cache (session_step df e st) PlotlyScatterplot = out_cache st PlotlyScatterplot"
proof -
  have inv: "coherent df st" "settled st" using reachable_invariant [OF assms(1)] by simp_all
  have nd: "event_input e \<notin> set (output_inputs PlotlyScatterplot)"
    using assms(2) by (simp add: output_inputs_def calc_inputs_eq)
  have log: "ExecOutput PlotlyScatterplot \<notin> set (drop (length (exec_log st)) (exec_log (session_step df e st)))"
    using nd by (auto simp: session_step_exec_log_cases [OF inv])
  have st': "coherent df (session_step df e st)" "settled (session_step df e st)"
    "sess_inputs (session_step df e st) = apply_event (sess_inputs st) e"
    using session_step_state [OF inv(1)] by simp_all
  have "out_cache (session_step df e st) PlotlyScatterplot
      = Some (output_value df (apply_event (sess_inputs st) e) PlotlyScatterplot)"
    using settled_out_cache [OF st'(1,2)] st'(3) by simp
  also have "\<dots> = out_cache st PlotlyScatterplot"
    using output_value_reads [of PlotlyScatterplot "apply_event (sess_inputs st) e" "sess_inputs st" df]
      nd read_apply_event_other settled_out_cache [OF inv] by metis
  finally show ?thesis using log by simp
qed

theorem scatterplot_stable_witness:
  "ExecOutput PlotlyScatterplot \<notin> set (drop (length (exec_log demo_species_step))
      (exec_log (session_step demo_frame (SetAttribute ''body_mass_g'') demo_species_step)))
   \<and> out_cache (session_step demo_frame (SetAttribute ''body_mass_g'') demo_species_step) PlotlyScatterplot
     = out_cache demo_species_step PlotlyScatterplot"
  using scatterplot_stable [OF demo_reachable, of "SetAttribute ''body_mass_g''"] by simp

section \<open>The Seaborn bin count\<close>

text \<open>
  The Seaborn histogram receives the slider's value unchanged, between 0 and 100, and 0 is
  reachable: the figure is requested with zero bins, which \<^verbatim>\<open>sns.histplot\<close> does
  not accept (a gap the specification leaves open, section 9).
\<close>

lemma seaborn_bins_passed_through:
  assumes "reachable df st"
  shows "\<exists>d t. out_cache st SeabornHistogram =
                 Some (Inr (SeabornHistogramFig d (selected_attribute (sess_inputs st))
                              (seaborn_bin_count (sess_inputs st)) ''species'' t))
       \<and> 0 \<le> seaborn_bin_count (sess_inputs st) \<and> seaborn_bin_count (sess_inputs st) \<le> 100"
  using reachable_out_cache [OF assms, of SeabornHistogram] reachable_invariant [OF assms]
  by (simp add: output_value_simps inputs_wf_iff)

lemma seaborn_zero_bins_reachable:
  "reachable demo_frame (session_step demo_frame (SetSeabornBins 0) demo_species_step)
   \<and> (\<exists>d t. out_cache (session_step demo_frame (SetSeabornBins 0) demo_species_step) SeabornHistogram =
         Some (Inr (SeabornHistogramFig d ''bill_length_mm'' 0 ''species'' t)))"
proof -
  have ok: "event_ok (SetSeabornBins 0)" by (simp add: event_ok_iff)
  have r: "reachable demo_frame (session_step demo_frame (SetSeabornBins 0) demo_species_step)"
    by (rule reachable.step [OF demo_reachable ok])
  have i: "sess_inputs (session_step demo_frame (SetSeabornBins 0) demo_species_step)
      = initial_inputs\<lparr>selected_species_list := [''Gentoo''], seaborn_bin_count := 0\<rparr>"
    by (simp add: reachable_sess_inputs_step [OF demo_reachable] demo_inputs)
  show ?thesis using r seaborn_bins_passed_through [OF r] i by (simp add: initial_inputs_def)
qed

section \<open>The module-level renderers\<close>

text \<open>
  The module-level renderers \<^verbatim>\<open>penguins_datatable\<close> and
  \<^verbatim>\<open>penguins_datagrid\<close> raise \<open>NameError\<close> whenever they run, since
  \<^verbatim>\<open>filtered_data\<close> is local to \<^verbatim>\<open>server()\<close>; the card layout of lines
  105--117 declares exactly their two placeholders, and none of them is a placeholder of
  \<^verbatim>\<open>app_ui\<close>, the page the application serves.
\<close>

lemma module_renderers_unbound:
  "penguins_datatable fd = Inl NameError \<and> penguins_datagrid fd = Inl NameError
   \<and> output_ids module_layout = [''penguins_datatable'', ''penguins_datagrid'']
   \<and> set (output_ids module_layout) \<inter> set (output_ids app_ui) = {}"
  by (simp add: penguins_datatable_def penguins_datagrid_def call_global_def module_globals_def app_ui_def
      module_layout_def)

text \<open>
  C5. Over any sequence of events the widgets can send, the session shows, after the last
  event, the dashboard of the inputs the events produce in order.
\<close>

theorem run_displays_final_inputs:
  assumes "list_all event_ok es"
  shows "out_cache (session_run df es (start_session df)) oi =
           Some (output_value df (foldl apply_event initial_inputs es) oi)"
  using reachable_out_cache [OF session_run_reachable [OF reachable.start assms]]
    session_run_inputs [OF reachable.start assms]
  by (simp add: sess_inputs_start)

theorem run_displays_final_inputs_witness:
  "out_cache (session_run demo_frame [SetSpecies [''Adelie''], SetSeabornBins 10] (start_session demo_frame)) DataGrid
     = Some (Inr (TableView [(1, sample_penguin ''Adelie'')]))"
proof -
  have "list_all event_ok [SetSpecies [''Adelie''], SetSeabornBins 10]" by (simp add: event_ok_iff)
  from run_displays_final_inputs [OF this, of demo_frame DataGrid] show ?thesis
    by (simp add: output_value_simps species_view_def demo_frame_def load_penguins_def sample_penguin_def)
qed

text \<open>
  C8. The read sets are exact: every input an output depends on, directly or through the
  calculation, can change what the output shows, so no output is re-executed for nothing.
\<close>

theorem dependency_sets_exact:
  assumes "i \<in> set (output_inputs oi)"
  shows "\<exists>df inp e. event_input e = i \<and> output_value df (apply_event inp e) oi \<noteq> output_value df inp oi"
proof -
  have sp: "output_value demo_frame (apply_event initial_inputs (SetSpecies [])) oi \<noteq> output_value demo_frame initial_inputs oi"
    by (cases oi) (simp_all add: output_value_simps species_view_def demo_frame_def load_penguins_def
        sample_penguin_def initial_inputs_def)
  have at: "output_value demo_frame (apply_event initial_inputs (SetAttribute ''body_mass_g'')) oi \<noteq> output_value demo_frame initial_inputs oi"
    if "oi \<in> {PlotlyHistogram, SeabornHistogram}"
    using that by (auto simp: output_value_simps initial_inputs_def)
  have pb: "output_value demo_frame (apply_event initial_inputs (SetPlotlyBins None)) PlotlyHistogram
      \<noteq> output_value demo_frame initial_inputs PlotlyHistogram"
    by (simp add: output_value_simps initial_inputs_def)
  have sb: "output_value demo_frame (apply_event initial_inputs (SetSeabornBins 7)) SeabornHistogram
      \<noteq> output_value demo_frame initial_inputs SeabornHistogram"
    by (simp add: output_value_simps initial_inputs_def)
  show ?thesis
  proof (cases i)
    case SelectedAttribute
    with assms have "oi \<in> {PlotlyHistogram, SeabornHistogram}"
      by (cases oi) (simp_all add: output_inputs_def calc_inputs_eq)
    with at SelectedAttribute show ?thesis by (metis event_input.simps(1))
  next
    case PlotlyBinCount
    with assms have "oi = PlotlyHistogram" by (cases oi) (simp_all add: output_inputs_def calc_inputs_eq)
    with pb PlotlyBinCount show ?thesis by (metis event_input.simps(2))
  next
    case SeabornBinCount
    with assms have "oi = SeabornHistogram" by (cases oi) (simp_all add: output_inputs_def calc_inputs_eq)
    with sb SeabornBinCount show ?thesis by (metis event_input.simps(3))
  next
    case SelectedSpeciesList
    with sp show ?thesis by (metis event_input.simps(4))
  qed
qed

theorem dependency_sets_exact_witness:
  "\<exists>df inp e. event_input e = SeabornBinCount
     \<and> output_value df (apply_event inp e) SeabornHistogram \<noteq> output_value df inp SeabornHistogram"
proof -
  have "SeabornBinCount \<in> set (output_inputs SeabornHistogram)" by (simp add: output_inputs_def)
  then show ?thesis by (rule dependency_sets_exact)
qed

end
